theory Spec2Isabelle
  imports Complex_Main "HOL-Library.Multiset"
begin

section \<open>Common data\<close>

text \<open>
  Python exceptions are values.  Only the exception classes that the modelled
  functions raise or catch appear; the payload is the message or the missing key.
\<close>

datatype error =
    FileNotFoundError
  | ValueError
  | PermissionError
  | IsADirectoryError
  | RuntimeError
  | TypeError
  | KeyError string
  | IntegrityError

text \<open>Is the exception an instance of \<^verbatim>\<open>OSError\<close>?  (\<^verbatim>\<open>IOError\<close> is an alias of it.)\<close>

fun is_OSError :: "error \<Rightarrow> bool" where
  "is_OSError FileNotFoundError = True"
| "is_OSError PermissionError = True"
| "is_OSError IsADirectoryError = True"
| "is_OSError _ = False"

text \<open>
  The module \<^verbatim>\<open>config\<close> is imported by every source file but is not part of the
  sources; the constants the modelled code reads from \<^verbatim>\<open>HEXAVGConfig\<close> are the
  fields of a record that the functions take as a parameter.
\<close>

type_synonym path = "string list"

record config =
  MIN_THREADS :: int
  MAX_THREADS :: int
  DEFAULT_THREADS :: int
  MAX_SCAN_FILE_SIZE :: nat
  QUICK_SCAN_SKIP_EXTENSIONS :: "string list"
  IS_WINDOWS :: bool
  IS_LINUX :: bool
  BASE_DIR :: path
  EICAR_STRING :: string
  HASH_ALGORITHMS :: "string list"

section \<open>Strings, paths and the file system\<close>

text \<open>
  Strings are ASCII strings; \<^verbatim>\<open>str.lower\<close> maps the letters \<open>A\<close> to \<open>Z\<close>.
\<close>

definition char_lower :: "char \<Rightarrow> char" where
  "char_lower c =
     (let n = (of_char c :: nat) in if 65 \<le> n \<and> n \<le> 90 then char_of (n + 32) else c)"

definition lower :: "string \<Rightarrow> string" where
  "lower s = map char_lower s"

text \<open>\<^verbatim>\<open>s.lstrip('.')\<close> and \<^verbatim>\<open>s.startswith(p)\<close>.\<close>

definition lstrip_dot :: "string \<Rightarrow> string" where
  "lstrip_dot s = dropWhile (\<lambda>c. c = CHR ''.'') s"

definition startswith :: "'a list \<Rightarrow> 'a list \<Rightarrow> bool" where
  "startswith s p = (take (length p) s = p)"

text \<open>
  A path is the list of its components below the root of the file system (the anchor
  \<^verbatim>\<open>'/'\<close> that \<^verbatim>\<open>Path.parts\<close> puts in front of an absolute path is left out; it adds one
  to both sides of the only comparison of lengths the code makes and is no system
  directory).  \<^verbatim>\<open>Path.name\<close> is the last component and \<^verbatim>\<open>Path.suffix\<close> is computed as
  \<^verbatim>\<open>pathlib\<close> does: from the last dot of the name, unless that dot is the first or
  the last character.
\<close>

definition path_name :: "path \<Rightarrow> string" where
  "path_name p = (case rev p of [] \<Rightarrow> [] | n # _ \<Rightarrow> n)"

definition name_suffix :: "string \<Rightarrow> string" where
  "name_suffix name =
     (if CHR ''.'' \<in> set name then
        (let k = length (takeWhile (\<lambda>c. c \<noteq> CHR ''.'') (rev name));
             i = length name - k - 1
         in if 0 < i \<and> i < length name - 1 then drop i name else [])
      else [])"

definition path_suffix :: "path \<Rightarrow> string" where
  "path_suffix p = name_suffix (path_name p)"

text \<open>
  The file system is a tree.  A regular file has its bytes and a flag for read
  permission (\<^verbatim>\<open>os.access(path, os.R_OK)\<close>, \<^verbatim>\<open>open(path, 'rb')\<close>); a directory has a
  flag for the permission to list it (\<^verbatim>\<open>os.scandir\<close>) and its entries in the order
  \<^verbatim>\<open>os.scandir\<close> returns them; every other kind of entry is \<open>OtherN\<close>.  Symbolic links
  are not modelled.
\<close>

record regfile =
  content :: "nat list"
  readable :: bool

datatype node = FileN regfile | DirN bool "(string \<times> node) list" | OtherN

fun lookup :: "node \<Rightarrow> path \<Rightarrow> node option" where
  "lookup n [] = Some n"
| "lookup (DirN l es) (x # xs) =
     (case map_of es x of None \<Rightarrow> None | Some n \<Rightarrow> lookup n xs)"
| "lookup _ (x # xs) = None"

fun is_dir :: "node option \<Rightarrow> bool" where
  "is_dir (Some (DirN l es)) = True"
| "is_dir _ = False"

fun is_file :: "node option \<Rightarrow> bool" where
  "is_file (Some (FileN f)) = True"
| "is_file _ = False"

text \<open>
  \<^verbatim>\<open>Path.write_text\<close>: creates or replaces a regular file in an existing directory
  with the bytes of the (ASCII) text; the new file is readable by its writer.
\<close>

fun put_entry :: "string \<Rightarrow> node \<Rightarrow> (string \<times> node) list \<Rightarrow> (string \<times> node) list" where
  "put_entry x n [] = [(x, n)]"
| "put_entry x n ((y, m) # es) = (if x = y then (x, n) # es else (y, m) # put_entry x n es)"

fun write_text :: "node \<Rightarrow> path \<Rightarrow> string \<Rightarrow> error + node" where
  "write_text n [] bs = Inl IsADirectoryError"
| "write_text (DirN l es) [x] bs =
     (case map_of es x of
        Some (DirN l' es') \<Rightarrow> Inl IsADirectoryError
      | Some OtherN \<Rightarrow> Inl PermissionError
      | _ \<Rightarrow> Inr (DirN l (put_entry x (FileN \<lparr>content = map of_char bs, readable = True\<rparr>) es)))"
| "write_text (DirN l es) (x # y # ys) bs =
     (case map_of es x of
        None \<Rightarrow> Inl FileNotFoundError
      | Some n \<Rightarrow>
          (case write_text n (y # ys) bs of
             Inl e \<Rightarrow> Inl e
           | Inr n' \<Rightarrow> Inr (DirN l (put_entry x n' es))))"
| "write_text _ (x # xs) bs = Inl FileNotFoundError"

section \<open>File traversal: \<^verbatim>\<open>src/core/file_traversal.py\<close>\<close>

record trav_stats =
  files_scanned :: nat
  files_skipped :: nat
  dirs_scanned :: nat
  dirs_skipped :: nat
  permission_errors :: nat

record file_traversal =
  skip_hidden :: bool
  skip_system :: bool
  max_depth :: "int option"
  system_dirs :: "string list"
  hidden_prefixes :: "string list"
  stats :: trav_stats

definition get_system_directories :: "config \<Rightarrow> string list" where
  "get_system_directories cfg =
     (if IS_WINDOWS cfg then
        [''Windows'', ''$Recycle.Bin'', ''System Volume Information'', ''ProgramData'',
         ''AppData'', ''Temporary Internet Files'']
      else if IS_LINUX cfg then
        [''proc'', ''sys'', ''dev'', ''run'', ''tmp'', ''var/run'', ''var/lock'', ''var/tmp'']
      else [])"

definition zero_trav_stats :: trav_stats where
  "zero_trav_stats =
     \<lparr>files_scanned = 0, files_skipped = 0, dirs_scanned = 0, dirs_skipped = 0,
      permission_errors = 0\<rparr>"

text \<open>\<^verbatim>\<open>FileTraversal.__init__(skip_hidden=True, skip_system=True, max_depth=None)\<close>.\<close>

definition FileTraversal_init :: "config \<Rightarrow> bool \<Rightarrow> bool \<Rightarrow> int option \<Rightarrow> file_traversal" where
  "FileTraversal_init cfg sh ss md =
     \<lparr>skip_hidden = sh, skip_system = ss, max_depth = md,
      system_dirs = get_system_directories cfg,
      hidden_prefixes = (if sh then [''.'', ''$''] else []),
      stats = zero_trav_stats\<rparr>"

definition bump_files_scanned :: "file_traversal \<Rightarrow> file_traversal" where
  "bump_files_scanned ft = ft\<lparr>stats := (stats ft)\<lparr>files_scanned := files_scanned (stats ft) + 1\<rparr>\<rparr>"

definition bump_files_skipped :: "file_traversal \<Rightarrow> file_traversal" where
  "bump_files_skipped ft = ft\<lparr>stats := (stats ft)\<lparr>files_skipped := files_skipped (stats ft) + 1\<rparr>\<rparr>"

definition bump_dirs_scanned :: "file_traversal \<Rightarrow> file_traversal" where
  "bump_dirs_scanned ft = ft\<lparr>stats := (stats ft)\<lparr>dirs_scanned := dirs_scanned (stats ft) + 1\<rparr>\<rparr>"

definition bump_dirs_skipped :: "file_traversal \<Rightarrow> file_traversal" where
  "bump_dirs_skipped ft = ft\<lparr>stats := (stats ft)\<lparr>dirs_skipped := dirs_skipped (stats ft) + 1\<rparr>\<rparr>"

definition bump_permission_errors :: "file_traversal \<Rightarrow> file_traversal" where
  "bump_permission_errors ft =
     ft\<lparr>stats := (stats ft)\<lparr>permission_errors := permission_errors (stats ft) + 1\<rparr>\<rparr>"

definition is_hidden :: "file_traversal \<Rightarrow> path \<Rightarrow> bool" where
  "is_hidden ft p =
     (if \<not> skip_hidden ft then False
      else list_ex (\<lambda>pre. startswith (path_name p) pre) (hidden_prefixes ft))"

definition is_system_dir :: "file_traversal \<Rightarrow> path \<Rightarrow> bool" where
  "is_system_dir ft p =
     (if \<not> skip_system ft then False
      else list_ex (\<lambda>part. part \<in> set (system_dirs ft)) p)"

text \<open>
  \<^verbatim>\<open>_should_skip(path, is_dir)\<close>; the last argument is \<^verbatim>\<open>path.exists()\<close>, which is true
  of every entry that \<^verbatim>\<open>os.scandir\<close> has just returned.
\<close>

definition should_skip :: "file_traversal \<Rightarrow> path \<Rightarrow> bool \<Rightarrow> bool \<Rightarrow> bool" where
  "should_skip ft p isdir ex =
     (if is_hidden ft p then True
      else if isdir \<and> is_system_dir ft p then True
      else if \<not> ex then True
      else False)"

text \<open>
  The extension lists are normalised when they are truthy (neither \<^verbatim>\<open>None\<close> nor empty).
\<close>

fun normalize_exts :: "string list option \<Rightarrow> string list option" where
  "normalize_exts None = None"
| "normalize_exts (Some []) = Some []"
| "normalize_exts (Some es) = Some (map (\<lambda>e. lstrip_dot (lower e)) es)"

fun exts_list :: "string list option \<Rightarrow> string list" where
  "exts_list None = []"
| "exts_list (Some es) = es"

fun truthy_exts :: "string list option \<Rightarrow> bool" where
  "truthy_exts None = False"
| "truthy_exts (Some es) = (es \<noteq> [])"

definition file_ext :: "path \<Rightarrow> string" where
  "file_ext p = lower (lstrip_dot (path_suffix p))"

text \<open>
  The test that guards the recursive call,
  \<^verbatim>\<open>self.max_depth is None or len(entry_path.parts) < len(Path(root_path).parts) + self.max_depth\<close>,
  where \<^verbatim>\<open>root_path\<close> is the argument of the running call.
\<close>

definition within_depth :: "file_traversal \<Rightarrow> path \<Rightarrow> path \<Rightarrow> bool" where
  "within_depth ft entry_path root_path =
     (case max_depth ft of
        None \<Rightarrow> True
      | Some d \<Rightarrow> int (length entry_path) < int (length root_path) + d)"

text \<open>
  \<^verbatim>\<open>FileTraversal.traverse\<close> is a generator.  The model returns the paths it yields
  until it ends or raises, the traversal object with its counters, and the exception
  it raises, if any.  \<open>traverse_entries\<close> is the \<^verbatim>\<open>for entry in os.scandir(root_path)\<close>
  loop.
\<close>

fun traverse ::
    "file_traversal \<Rightarrow> string list option \<Rightarrow> string list option \<Rightarrow> path \<Rightarrow> node option
      \<Rightarrow> path list \<times> file_traversal \<times> error option"
  and traverse_entries ::
    "file_traversal \<Rightarrow> string list option \<Rightarrow> string list option \<Rightarrow> path
      \<Rightarrow> (string \<times> node) list \<Rightarrow> path list \<times> file_traversal \<times> error option"
where
  "traverse ft ef se root_path None = ([], ft, Some FileNotFoundError)"
| "traverse ft ef se root_path (Some (FileN f)) = ([], ft, Some ValueError)"
| "traverse ft ef se root_path (Some OtherN) = ([], ft, Some ValueError)"
| "traverse ft ef se root_path (Some (DirN listable es)) =
     (if \<not> listable then ([], bump_permission_errors ft, Some PermissionError)
      else
        (case traverse_entries ft (normalize_exts ef) (normalize_exts se) root_path es of
           (ys, ft', None) \<Rightarrow> (ys, ft', None)
         | (ys, ft', Some e) \<Rightarrow>
             (ys, (if is_OSError e then bump_permission_errors ft' else ft'), Some e)))"
| "traverse_entries ft ef se root_path [] = ([], ft, None)"
| "traverse_entries ft ef se root_path ((name, nd) # es) =
     (let entry_path = root_path @ [name] in
      if should_skip ft entry_path (is_dir (Some nd)) True then
        traverse_entries
          (if is_dir (Some nd) then bump_dirs_skipped ft else bump_files_skipped ft)
          ef se root_path es
      else if is_dir (Some nd) then
        (let ft1 = bump_dirs_scanned ft in
         if within_depth ft1 entry_path root_path then
           (case traverse ft1 ef se entry_path (Some nd) of
              (ys, ft2, None) \<Rightarrow>
                (case traverse_entries ft2 ef se root_path es of
                   (zs, ft3, err) \<Rightarrow> (ys @ zs, ft3, err))
            | (ys, ft2, Some e) \<Rightarrow>
                if is_OSError e then
                  (case traverse_entries (bump_permission_errors ft2) ef se root_path es of
                     (zs, ft3, err) \<Rightarrow> (ys @ zs, ft3, err))
                else (ys, ft2, Some e))
         else traverse_entries ft1 ef se root_path es)
      else if is_file (Some nd) then
        (if \<not> (case nd of FileN f \<Rightarrow> readable f | _ \<Rightarrow> False) then
           traverse_entries (bump_files_skipped (bump_permission_errors ft)) ef se root_path es
         else if truthy_exts ef \<and> file_ext entry_path \<notin> set (exts_list ef) then
           traverse_entries (bump_files_skipped ft) ef se root_path es
         else if truthy_exts se \<and> file_ext entry_path \<in> set (exts_list se) then
           traverse_entries (bump_files_skipped ft) ef se root_path es
         else
           (case traverse_entries (bump_files_scanned ft) ef se root_path es of
              (zs, ft3, err) \<Rightarrow> (entry_path # zs, ft3, err)))
      else traverse_entries (bump_files_skipped ft) ef se root_path es)"

text \<open>\<^verbatim>\<open>get_files_list\<close>: \<^verbatim>\<open>list(self.traverse(...))\<close>, which raises what the generator raises.\<close>

definition get_files_list ::
    "file_traversal \<Rightarrow> node \<Rightarrow> path \<Rightarrow> string list option \<Rightarrow> string list option
      \<Rightarrow> file_traversal \<times> (error + path list)" where
  "get_files_list ft fs root_path ef se =
     (case traverse ft ef se root_path (lookup fs root_path) of
        (ys, ft', None) \<Rightarrow> (ft', Inr ys)
      | (ys, ft', Some e) \<Rightarrow> (ft', Inl e))"

section \<open>Thread manager: \<^verbatim>\<open>src/core/multithreading.py\<close>\<close>

text \<open>
  \<^verbatim>\<open>x or y\<close> on an optional integer: \<^verbatim>\<open>None\<close> and \<^verbatim>\<open>0\<close> are falsy.
\<close>

definition int_or :: "int option \<Rightarrow> int \<Rightarrow> int" where
  "int_or x y = (case x of None \<Rightarrow> y | Some v \<Rightarrow> if v = 0 then y else v)"

text \<open>
  \<^verbatim>\<open>ThreadManager.__init__\<close>: the value left in \<^verbatim>\<open>self.max_workers\<close>, the size of the
  worker pool that every later \<^verbatim>\<open>ThreadPoolExecutor(max_workers=self.max_workers)\<close> gets.
\<close>

definition ThreadManager_init :: "config \<Rightarrow> int option \<Rightarrow> int" where
  "ThreadManager_init cfg max_workers =
     (let mw = int_or max_workers (DEFAULT_THREADS cfg)
      in max (MIN_THREADS cfg) (min mw (MAX_THREADS cfg)))"

text \<open>
  A scan result is the dictionary the per-file scan function returns.  The keys
  \<^verbatim>\<open>threats\<close>, \<^verbatim>\<open>hashes\<close>, \<^verbatim>\<open>error\<close> and \<^verbatim>\<open>reason\<close> are optional: \<open>None\<close> is an absent
  key.  The \<^verbatim>\<open>timestamp\<close> (the wall clock) is left out.
\<close>

record threat =
  threat_type :: string
  threat_name :: string
  threat_severity :: string

record scan_result =
  file_path :: path
  status :: string
  threats :: "threat list option"
  hashes :: "(string \<times> string) list option"
  error_msg :: "string option"
  reason :: "string option"

record tm_stats =
  total_tasks :: nat
  completed_tasks :: nat
  failed_tasks :: nat
  active_threads :: nat

record thread_manager =
  max_workers :: int
  tm_stats :: tm_stats

definition ThreadManager_new :: "config \<Rightarrow> int option \<Rightarrow> thread_manager" where
  "ThreadManager_new cfg mw =
     \<lparr>max_workers = ThreadManager_init cfg mw,
      tm_stats = \<lparr>total_tasks = 0, completed_tasks = 0, failed_tasks = 0, active_threads = 0\<rparr>\<rparr>"

text \<open>The synthetic result that \<^verbatim>\<open>scan_files\<close> appends when a task raises.\<close>

definition error_result :: "path \<Rightarrow> string \<Rightarrow> scan_result" where
  "error_result p msg =
     \<lparr>file_path = p, status = ''error'', threats = None, hashes = None,
      error_msg = Some msg, reason = None\<rparr>"

definition bump_completed :: "thread_manager \<Rightarrow> thread_manager" where
  "bump_completed tm =
     tm\<lparr>tm_stats := (tm_stats tm)\<lparr>completed_tasks := completed_tasks (tm_stats tm) + 1\<rparr>\<rparr>"

definition bump_failed :: "thread_manager \<Rightarrow> thread_manager" where
  "bump_failed tm =
     tm\<lparr>tm_stats := (tm_stats tm)\<lparr>failed_tasks := failed_tasks (tm_stats tm) + 1\<rparr>\<rparr>"

text \<open>
  \<^verbatim>\<open>ThreadManager.scan_files\<close>.  A scan function returns its result or raises an
  exception, of which the loop reads the message only (\<open>Inl\<close> of the message).  A
  progress callback returns normally (\<open>None\<close>) or raises (\<open>Some\<close> of the message).
  The tasks run concurrently; what the collecting loop sees is the order in which they
  complete, given as the list of the indices into \<^verbatim>\<open>file_paths\<close> in that order.  The
  wall-clock timeout of \<^verbatim>\<open>as_completed\<close> is not modelled: every task completes in time.
  \<open>scan_files_loop\<close> is the body of \<^verbatim>\<open>for future in as_completed(...)\<close>, with the locals
  \<^verbatim>\<open>results\<close> and \<^verbatim>\<open>scanned\<close>.
\<close>

type_synonym scan_func = "path \<Rightarrow> string + scan_result"
type_synonym progress_callback = "nat \<Rightarrow> nat \<Rightarrow> path \<Rightarrow> string option"

fun scan_files_loop ::
    "path list \<Rightarrow> scan_func \<Rightarrow> progress_callback option \<Rightarrow> nat list
      \<Rightarrow> scan_result list \<Rightarrow> nat \<Rightarrow> thread_manager \<Rightarrow> scan_result list \<times> thread_manager" where
  "scan_files_loop file_paths scan_func cb [] results scanned tm = (results, tm)"
| "scan_files_loop file_paths scan_func cb (i # order) results scanned tm =
     (let p = file_paths ! i in
      case scan_func p of
        Inr result \<Rightarrow>
          (case (case cb of None \<Rightarrow> None | Some f \<Rightarrow> f (scanned + 1) (length file_paths) p) of
             None \<Rightarrow>
               scan_files_loop file_paths scan_func cb order (results @ [result])
                 (scanned + 1) (bump_completed tm)
           | Some msg \<Rightarrow>
               scan_files_loop file_paths scan_func cb order
                 (results @ [result] @ [error_result p msg])
                 (scanned + 1) (bump_failed (bump_completed tm)))
      | Inl msg \<Rightarrow>
          scan_files_loop file_paths scan_func cb order (results @ [error_result p msg])
            scanned (bump_failed tm))"

definition scan_files ::
    "thread_manager \<Rightarrow> path list \<Rightarrow> scan_func \<Rightarrow> progress_callback option \<Rightarrow> nat list
      \<Rightarrow> scan_result list \<times> thread_manager" where
  "scan_files tm file_paths scan_func cb order =
     scan_files_loop file_paths scan_func cb order [] 0
       (tm\<lparr>tm_stats := (tm_stats tm)\<lparr>total_tasks := length file_paths\<rparr>\<rparr>)"

text \<open>\<^verbatim>\<open>ProgressCallback.__call__\<close> stores and prints the progress; it does not raise.\<close>

definition ProgressCallback :: progress_callback where
  "ProgressCallback completed total_items current_item = None"

section \<open>Signature detector: \<^verbatim>\<open>src/detection/signature.py\<close>\<close>

text \<open>
  The SQLite table \<^verbatim>\<open>signatures\<close> is the list of its rows in the order of their
  row ids.  Only \<^verbatim>\<open>name\<close> is declared \<^verbatim>\<open>NOT NULL\<close>; \<open>None\<close> is SQL \<^verbatim>\<open>NULL\<close>.  \<open>sig_clock\<close> is
  the value \<^verbatim>\<open>CURRENT_TIMESTAMP\<close> has when a row is inserted.  The connection is open
  and the disk does not fail.
\<close>

record sig_row =
  row_id :: nat
  row_name :: string
  row_md5 :: "string option"
  row_sha1 :: "string option"
  row_sha256 :: "string option"
  row_type :: "string option"
  row_severity :: "string option"
  row_description :: "string option"
  row_created_at :: nat

record sig_store =
  sig_rows :: "sig_row list"
  sig_next_id :: nat
  sig_clock :: nat

text \<open>
  \<^verbatim>\<open>add_signature\<close>: the \<^verbatim>\<open>INSERT\<close> fails on a \<^verbatim>\<open>NULL\<close> name (\<^verbatim>\<open>IntegrityError\<close>, caught:
  the method returns \<^verbatim>\<open>False\<close>), and appends a row otherwise.
\<close>

definition add_signature ::
    "sig_store \<Rightarrow> string option \<Rightarrow> string option \<Rightarrow> string option \<Rightarrow> string option
      \<Rightarrow> string option \<Rightarrow> string option \<Rightarrow> string option \<Rightarrow> sig_store \<times> bool" where
  "add_signature sd name md5 sha1 sha256 sig_type severity description =
     (case name of
        None \<Rightarrow> (sd, False)
      | Some n \<Rightarrow>
          (sd\<lparr>sig_rows := sig_rows sd @
                 [\<lparr>row_id = sig_next_id sd, row_name = n, row_md5 = md5, row_sha1 = sha1,
                   row_sha256 = sha256, row_type = sig_type, row_severity = severity,
                   row_description = description, row_created_at = sig_clock sd\<rparr>],
               sig_next_id := sig_next_id sd + 1\<rparr>, True))"

definition get_signature_count :: "sig_store \<Rightarrow> nat" where
  "get_signature_count sd = length (sig_rows sd)"

text \<open>
  The dictionary that \<^verbatim>\<open>detect\<close> returns (an absent name, severity, type or description
  is \<^verbatim>\<open>None\<close>).
\<close>

record detect_result =
  detected :: bool
  det_name :: "string option"
  det_severity :: "string option"
  det_type :: "string option"
  det_description :: "string option"
  matched_hash :: "string option"

text \<open>
  The query of \<^verbatim>\<open>list_signatures\<close>,
  \<^verbatim>\<open>SELECT ... FROM signatures ORDER BY created_at DESC LIMIT ?\<close>, as SQLite evaluates
  it: a \<^verbatim>\<open>NULL\<close> limit is rejected (\<^verbatim>\<open>IntegrityError: datatype mismatch\<close>), a negative
  limit is no limit.  Rows of equal \<^verbatim>\<open>created_at\<close> are kept in the order of their ids.
\<close>

definition select_ordered_limit :: "sig_row list \<Rightarrow> int option \<Rightarrow> error + sig_row list" where
  "select_ordered_limit rs limit =
     (case limit of
        None \<Rightarrow> Inl IntegrityError
      | Some n \<Rightarrow>
          (let sorted_rows = sort_key (\<lambda>r. - int (row_created_at r)) rs
           in Inr (if n < 0 then sorted_rows else take (nat n) sorted_rows)))"

text \<open>
  A field of a JSON object: absent, \<^verbatim>\<open>null\<close> or a string.  \<open>sig_json\<close> is one element
  of the \<^verbatim>\<open>signatures\<close> array of a signature document.
\<close>

datatype jfield = Missing | Null | Str string

record sig_json =
  j_name :: jfield
  j_md5 :: jfield
  j_sha1 :: jfield
  j_sha256 :: jfield
  j_type :: jfield
  j_severity :: jfield
  j_description :: jfield

fun opt_field :: "string option \<Rightarrow> jfield" where
  "opt_field None = Null"
| "opt_field (Some s) = Str s"

text \<open>\<^verbatim>\<open>d.get(key)\<close> and \<^verbatim>\<open>d.get(key, default)\<close>.\<close>

fun jget :: "jfield \<Rightarrow> string option" where
  "jget (Str s) = Some s"
| "jget _ = None"

fun jget_default :: "jfield \<Rightarrow> string \<Rightarrow> string option" where
  "jget_default Missing d = Some d"
| "jget_default Null d = None"
| "jget_default (Str s) d = Some s"

text \<open>
  \<^verbatim>\<open>list_signatures(limit)\<close>: the dictionaries it builds have the keys \<^verbatim>\<open>name\<close>, \<^verbatim>\<open>md5\<close>,
  \<^verbatim>\<open>sha256\<close>, \<^verbatim>\<open>type\<close>, \<^verbatim>\<open>severity\<close>, \<^verbatim>\<open>description\<close> and \<^verbatim>\<open>created_at\<close> (no \<^verbatim>\<open>sha1\<close>); any
  exception is caught and gives the empty list.
\<close>

definition row_to_json :: "sig_row \<Rightarrow> sig_json" where
  "row_to_json r =
     \<lparr>j_name = Str (row_name r), j_md5 = opt_field (row_md5 r), j_sha1 = Missing,
      j_sha256 = opt_field (row_sha256 r), j_type = opt_field (row_type r),
      j_severity = opt_field (row_severity r), j_description = opt_field (row_description r)\<rparr>"

definition list_signatures :: "sig_store \<Rightarrow> int option \<Rightarrow> sig_json list" where
  "list_signatures sd limit =
     (case select_ordered_limit (sig_rows sd) limit of
        Inl e \<Rightarrow> []
      | Inr rs \<Rightarrow> map row_to_json rs)"

text \<open>
  \<^verbatim>\<open>export_signatures\<close> calls \<^verbatim>\<open>self.list_signatures(limit=None)\<close> and writes the document
  \<^verbatim>\<open>{'signatures': ..., 'count': ..., 'exported_at': ...}\<close>; the model returns the
  \<^verbatim>\<open>signatures\<close> array and the \<^verbatim>\<open>count\<close> of the document written.
\<close>

record sig_doc =
  doc_signatures :: "sig_json list option"
  doc_count :: "nat option"

definition export_signatures :: "sig_store \<Rightarrow> bool \<times> sig_doc" where
  "export_signatures sd =
     (let signatures = list_signatures sd None
      in (True, \<lparr>doc_signatures = Some signatures, doc_count = Some (length signatures)\<rparr>))"

text \<open>
  \<^verbatim>\<open>import_signatures\<close>: the loop over \<^verbatim>\<open>data.get('signatures', [])\<close>.  \<^verbatim>\<open>sig['name']\<close>
  raises \<^verbatim>\<open>KeyError\<close> on an absent name, which ends the import with \<^verbatim>\<open>False\<close>; the rows
  added before stay.
\<close>

fun import_loop :: "sig_store \<Rightarrow> sig_json list \<Rightarrow> sig_store \<times> bool" where
  "import_loop sd [] = (sd, True)"
| "import_loop sd (s # ss) =
     (case j_name s of
        Missing \<Rightarrow> (sd, False)
      | _ \<Rightarrow>
          import_loop
            (fst (add_signature sd (jget (j_name s)) (jget (j_md5 s)) (jget (j_sha1 s))
                    (jget (j_sha256 s)) (jget_default (j_type s) ''unknown'')
                    (jget_default (j_severity s) ''medium'')
                    (jget_default (j_description s) [])))
            ss)"

definition import_signatures :: "sig_store \<Rightarrow> sig_doc \<Rightarrow> sig_store \<times> bool" where
  "import_signatures sd doc =
     import_loop sd (case doc_signatures doc of None \<Rightarrow> [] | Some ss \<Rightarrow> ss)"

text \<open>
  \<^verbatim>\<open>_load_eicar_signature\<close> reads \<^verbatim>\<open>eicar.json\<close> if it exists (\<open>None\<close>: it does not) and adds
  its signatures with \<^verbatim>\<open>sig.get('type')\<close>, \<^verbatim>\<open>sig.get('severity')\<close> and
  \<^verbatim>\<open>sig.get('description')\<close>; an exception ends the loading.
\<close>

fun load_eicar_loop :: "sig_store \<Rightarrow> sig_json list \<Rightarrow> sig_store" where
  "load_eicar_loop sd [] = sd"
| "load_eicar_loop sd (s # ss) =
     (case j_name s of
        Missing \<Rightarrow> sd
      | _ \<Rightarrow>
          load_eicar_loop
            (fst (add_signature sd (jget (j_name s)) (jget (j_md5 s)) (jget (j_sha1 s))
                    (jget (j_sha256 s)) (jget (j_type s)) (jget (j_severity s))
                    (jget (j_description s))))
            ss)"

definition load_eicar_signature :: "sig_store \<Rightarrow> sig_doc option \<Rightarrow> sig_store" where
  "load_eicar_signature sd eicar_file =
     (case eicar_file of
        None \<Rightarrow> sd
      | Some doc \<Rightarrow>
          load_eicar_loop sd (case doc_signatures doc of None \<Rightarrow> [] | Some ss \<Rightarrow> ss))"

text \<open>
  \<^verbatim>\<open>SignatureDetector.__init__\<close> on a database file that holds the given rows (none,
  for a store that is created by this call), with the given \<^verbatim>\<open>eicar.json\<close>.
\<close>

definition SignatureDetector_init ::
    "sig_row list \<Rightarrow> nat \<Rightarrow> sig_doc option \<Rightarrow> sig_store" where
  "SignatureDetector_init existing now eicar_file =
     load_eicar_signature
       \<lparr>sig_rows = existing, sig_next_id = Suc (foldr max (map row_id existing) 0),
        sig_clock = now\<rparr>
       eicar_file"


section \<open>Scanner: \<^verbatim>\<open>src/core/hasher.py\<close>, \<^verbatim>\<open>src/core/scanner.py\<close>, \<^verbatim>\<open>hex_avg.py\<close>\<close>

text \<open>
  What the code takes from the Python library and the operating system is a
  parameter: \<open>hashlib_new algo\<close> is the digest function of a supported algorithm in
  hexadecimal (\<open>None\<close>: \<^verbatim>\<open>hashlib.new\<close> raises \<^verbatim>\<open>ValueError\<close>), \<open>dir_st_size\<close> is the
  \<^verbatim>\<open>st_size\<close> of a directory, and \<open>decode_utf8\<close> is \<^verbatim>\<open>bytes.decode('utf-8', errors='ignore')\<close>.
\<close>

record env =
  hashlib_new :: "string \<Rightarrow> (nat list \<Rightarrow> string) option"
  dir_st_size :: nat
  decode_utf8 :: "nat list \<Rightarrow> string"

text \<open>\<^verbatim>\<open>path.stat().st_size\<close>.\<close>

fun st_size :: "env \<Rightarrow> node option \<Rightarrow> error + nat" where
  "st_size ev None = Inl FileNotFoundError"
| "st_size ev (Some (FileN f)) = Inr (length (content f))"
| "st_size ev (Some (DirN l es)) = Inr (dir_st_size ev)"
| "st_size ev (Some OtherN) = Inr 0"

text \<open>
  \<^verbatim>\<open>FileHasher.hash_file\<close> with the configured algorithms.  Reading in chunks gives the
  digest of the whole content; the dictionary of the digests has one entry for each
  algorithm, in the order of their first occurrence.
\<close>

definition hash_file :: "env \<Rightarrow> config \<Rightarrow> node option \<Rightarrow> error + (string \<times> string) list" where
  "hash_file ev cfg n =
     (case n of
        None \<Rightarrow> Inl FileNotFoundError
      | Some (FileN f) \<Rightarrow>
          (if list_ex (\<lambda>algo. hashlib_new ev algo = None) (HASH_ALGORITHMS cfg) then Inl ValueError
           else if \<not> readable f then Inl PermissionError
           else Inr (map (\<lambda>algo. (algo, (case hashlib_new ev algo of
                                             Some h \<Rightarrow> h (content f) | None \<Rightarrow> [])))
                       (rev (remdups (rev (HASH_ALGORITHMS cfg))))))
      | Some _ \<Rightarrow> Inl ValueError)"

text \<open>\<^verbatim>\<open>str(e)\<close> of the exceptions of this model: the name of the class stands for the text.\<close>

fun str_error :: "error \<Rightarrow> string" where
  "str_error FileNotFoundError = ''FileNotFoundError''"
| "str_error ValueError = ''ValueError''"
| "str_error PermissionError = ''PermissionError''"
| "str_error IsADirectoryError = ''IsADirectoryError''"
| "str_error RuntimeError = ''RuntimeError''"
| "str_error TypeError = ''TypeError''"
| "str_error (KeyError k) = k"
| "str_error IntegrityError = ''IntegrityError''"

record scan_stats =
  stat_files_scanned :: nat
  stat_files_skipped :: nat
  stat_threats_found :: nat
  stat_threats :: "scan_result list"

text \<open>
  \<^verbatim>\<open>HEXAVGScanner\<close>.  The three detector slots hold a detector or \<^verbatim>\<open>None\<close>.  A detector
  is what its method gives where the scanner calls it, in a thread of the pool: a
  signature detector maps a path and the dictionary of hashes to the result of
  \<^verbatim>\<open>detect\<close>, a heuristic detector maps a path and a size to its \<^verbatim>\<open>suspicious\<close> flag and
  its threats, a rule detector maps a path to the names of the rules that match.
\<close>

record scanner =
  threads :: int
  enable_heuristics :: bool
  enable_yara :: bool
  traversal :: file_traversal
  manager :: thread_manager
  scan_stats :: scan_stats
  signature_detector :: "(path \<Rightarrow> (string \<times> string) list \<Rightarrow> detect_result) option"
  heuristic_detector :: "(path \<Rightarrow> nat \<Rightarrow> bool \<times> threat list) option"
  yara_detector :: "(path \<Rightarrow> string list) option"

definition HEXAVGScanner_init :: "config \<Rightarrow> int option \<Rightarrow> bool \<Rightarrow> bool \<Rightarrow> scanner" where
  "HEXAVGScanner_init cfg thr eh ey =
     (let t = int_or thr (DEFAULT_THREADS cfg) in
      \<lparr>threads = t, enable_heuristics = eh, enable_yara = (ey \<and> IS_LINUX cfg),
       traversal = FileTraversal_init cfg True True None,
       manager = ThreadManager_new cfg (Some t),
       scan_stats = \<lparr>stat_files_scanned = 0, stat_files_skipped = 0, stat_threats_found = 0,
                     stat_threats = []\<rparr>,
       signature_detector = None, heuristic_detector = None, yara_detector = None\<rparr>)"

text \<open>
  \<^verbatim>\<open>_scan_file\<close>.  The three detection steps update the result one after the other;
  an exception of \<^verbatim>\<open>stat\<close> or of the hasher is caught and turned into an \<^verbatim>\<open>error\<close> result.
\<close>

definition signature_step :: "scanner \<Rightarrow> path \<Rightarrow> scan_result \<Rightarrow> scan_result" where
  "signature_step sc p result =
     (case signature_detector sc of
        None \<Rightarrow> result
      | Some detect \<Rightarrow>
          (let signature_result = detect p (case hashes result of None \<Rightarrow> [] | Some hs \<Rightarrow> hs) in
           if detected signature_result then
             result\<lparr>status := ''infected'',
                    threats := Some ((case threats result of None \<Rightarrow> [] | Some ts \<Rightarrow> ts) @
                      [\<lparr>threat_type = ''signature'',
                        threat_name = (case det_name signature_result of None \<Rightarrow> [] | Some n \<Rightarrow> n),
                        threat_severity =
                          (case det_severity signature_result of None \<Rightarrow> [] | Some s \<Rightarrow> s)\<rparr>])\<rparr>
           else result))"

definition heuristic_step :: "scanner \<Rightarrow> path \<Rightarrow> nat \<Rightarrow> scan_result \<Rightarrow> scan_result" where
  "heuristic_step sc p file_size result =
     (case (if enable_heuristics sc then heuristic_detector sc else None) of
        None \<Rightarrow> result
      | Some h \<Rightarrow>
          (if fst (h p file_size) then
             result\<lparr>status := ''suspicious'',
                    threats := Some ((case threats result of None \<Rightarrow> [] | Some ts \<Rightarrow> ts) @
                                     snd (h p file_size))\<rparr>
           else result))"

definition yara_step :: "scanner \<Rightarrow> path \<Rightarrow> scan_result \<Rightarrow> scan_result" where
  "yara_step sc p result =
     (case (if enable_yara sc then yara_detector sc else None) of
        None \<Rightarrow> result
      | Some y \<Rightarrow>
          (if y p \<noteq> [] then
             result\<lparr>status := ''infected'',
                    threats := Some ((case threats result of None \<Rightarrow> [] | Some ts \<Rightarrow> ts) @
                      map (\<lambda>rule. \<lparr>threat_type = ''yara'', threat_name = rule,
                                    threat_severity = ''high''\<rparr>) (y p))\<rparr>
           else result))"

definition scan_file :: "scanner \<Rightarrow> env \<Rightarrow> config \<Rightarrow> node \<Rightarrow> path \<Rightarrow> scan_result" where
  "scan_file sc ev cfg fs p =
     (let result = \<lparr>file_path = p, status = ''clean'', threats = Some [], hashes = Some [],
                    error_msg = None, reason = None\<rparr>
      in case st_size ev (lookup fs p) of
           Inl e \<Rightarrow> result\<lparr>status := ''error'', error_msg := Some (str_error e)\<rparr>
         | Inr file_size \<Rightarrow>
             (if file_size > MAX_SCAN_FILE_SIZE cfg then
                result\<lparr>status := ''skipped'', reason := Some ''File too large''\<rparr>
              else
                (case hash_file ev cfg (lookup fs p) of
                   Inl e \<Rightarrow> result\<lparr>status := ''error'', error_msg := Some (str_error e)\<rparr>
                 | Inr hs \<Rightarrow>
                     yara_step sc p
                       (heuristic_step sc p file_size
                          (signature_step sc p (result\<lparr>hashes := Some hs\<rparr>))))))"

text \<open>
  \<^verbatim>\<open>_process_scan_results\<close> updates the statistics in place, so what it has counted
  stays when \<^verbatim>\<open>result['threats']\<close> raises \<^verbatim>\<open>KeyError\<close>.
\<close>

fun process_scan_results :: "scan_stats \<Rightarrow> scan_result list \<Rightarrow> scan_stats \<times> error option" where
  "process_scan_results st [] = (st, None)"
| "process_scan_results st (result # results) =
     (let st1 = st\<lparr>stat_files_scanned := stat_files_scanned st + 1\<rparr>;
          st2 = (if status result = ''skipped'' \<or> status result = ''error''
                 then st1\<lparr>stat_files_skipped := stat_files_skipped st1 + 1\<rparr> else st1)
      in case threats result of
           None \<Rightarrow> (st2, Some (KeyError ''threats''))
         | Some ts \<Rightarrow>
             process_scan_results
               (if ts \<noteq> [] then
                  st2\<lparr>stat_threats_found := stat_threats_found st2 + 1,
                      stat_threats := stat_threats st2 @ [result]\<rparr>
                else st2)
               results)"

text \<open>
  \<^verbatim>\<open>HEXAVGScanner.scan\<close>.  \<open>completion n\<close> is the order in which \<open>n\<close> submitted tasks
  complete.  Printing and the wall-clock fields of the statistics are left out.
\<close>

definition scan ::
    "scanner \<Rightarrow> env \<Rightarrow> config \<Rightarrow> node \<Rightarrow> path \<Rightarrow> bool \<Rightarrow> progress_callback option
      \<Rightarrow> (nat \<Rightarrow> nat list) \<Rightarrow> scanner \<times> (error + scan_stats)" where
  "scan sc ev cfg fs scan_path quick_scan cb completion =
     (if lookup fs scan_path = None then (sc, Inl FileNotFoundError)
      else
        (let skip_extensions = (if quick_scan then Some (QUICK_SCAN_SKIP_EXTENSIONS cfg) else None)
         in case get_files_list (traversal sc) fs scan_path None skip_extensions of
              (ft, Inl e) \<Rightarrow> (sc\<lparr>traversal := ft\<rparr>, Inl e)
            | (ft, Inr file_paths) \<Rightarrow>
                (let cb' = (case cb of None \<Rightarrow> ProgressCallback | Some c \<Rightarrow> c);
                     (scan_results, tm) =
                        scan_files (manager sc) file_paths (\<lambda>p. Inr (scan_file sc ev cfg fs p))
                          (Some cb') (completion (length file_paths));
                     (st, err) = process_scan_results (scan_stats sc) scan_results;
                     sc' = sc\<lparr>traversal := ft, manager := tm, scan_stats := st\<rparr>
                 in case err of
                      Some e \<Rightarrow> (sc', Inl e)
                    | None \<Rightarrow> (sc', Inr st))))"

text \<open>
  The \<^verbatim>\<open>benchmark\<close> command of \<^verbatim>\<open>hex_avg.py\<close> with \<^verbatim>\<open>--test-eicar\<close>: it writes the test
  file, constructs \<^verbatim>\<open>HEXAVGScanner()\<close> and calls \<^verbatim>\<open>scanner.scan(eicar_file)\<close>.
  \<open>benchmark_scan\<close> is what that call returns or raises (or what \<^verbatim>\<open>write_text\<close> raises
  before it); \<open>benchmark\<close> is the command, whose result tells which of its two
  verdicts it prints.
\<close>

definition benchmark_scan ::
    "env \<Rightarrow> config \<Rightarrow> node \<Rightarrow> (nat \<Rightarrow> nat list) \<Rightarrow> error + scan_stats" where
  "benchmark_scan ev cfg fs completion =
     (let eicar_file = BASE_DIR cfg @ [''eicar.txt''] in
      case write_text fs eicar_file (EICAR_STRING cfg) of
        Inl e \<Rightarrow> Inl e
      | Inr fs' \<Rightarrow>
          snd (scan (HEXAVGScanner_init cfg None True False) ev cfg fs' eicar_file False None
                 completion))"

definition benchmark ::
    "env \<Rightarrow> config \<Rightarrow> node \<Rightarrow> bool \<Rightarrow> (nat \<Rightarrow> nat list) \<Rightarrow> error + bool option" where
  "benchmark ev cfg fs test_eicar completion =
     (if test_eicar then
        (case benchmark_scan ev cfg fs completion of
           Inl e \<Rightarrow> Inl e
         | Inr results \<Rightarrow> Inr (Some (stat_threats_found results > 0)))
      else Inr None)"


section \<open>Advanced heuristic engine: \<^verbatim>\<open>src/detection/advanced_heuristic.py\<close>\<close>

text \<open>
  A signal is the dictionary an analysis step returns: its score, its name and its
  level, if it has one.  The \<^verbatim>\<open>details\<close> text and the \<^verbatim>\<open>explanation\<close> of the result, which
  no decision reads, are left out.  Bytes are natural numbers below 256.
\<close>

record signal =
  signal_score :: int
  signal_name :: string
  signal_level :: "string option"

record heuristic_result =
  risk_score :: int
  signals :: "signal list"

definition bytes_of :: "string \<Rightarrow> nat list" where
  "bytes_of s = map of_char s"

subsection \<open>Entropy\<close>

text \<open>
  The Shannon entropy of the byte frequencies, \<open>- \<Sum> p\<^sub>i log\<^sub>2 p\<^sub>i\<close> over the byte values
  that occur.  Floats are real numbers here.
\<close>

definition shannon_entropy :: "nat list \<Rightarrow> real" where
  "shannon_entropy data =
     - sum_list (map (\<lambda>b. let c = count_list data b in
                           if c > 0 then (real c / real (length data)) *
                                         log 2 (real c / real (length data))
                           else 0) [0..<256])"

definition entropy_score :: "real \<Rightarrow> int \<times> string" where
  "entropy_score entropy =
     (if entropy \<ge> 75 / 10 then (30, ''CRITICAL'')
      else if entropy \<ge> 7 then (25, ''HIGH'')
      else if entropy \<ge> 65 / 10 then (15, ''MEDIUM'')
      else if entropy \<ge> 55 / 10 then (5, ''LOW'')
      else (0, ''NONE''))"

definition analyze_entropy :: "nat list \<Rightarrow> signal" where
  "analyze_entropy data =
     (if length data < 256 then
        \<lparr>signal_score = 0, signal_name = ''entropy'', signal_level = None\<rparr>
      else
        (let (score, level) = entropy_score (shannon_entropy data) in
         \<lparr>signal_score = score, signal_name = ''entropy'', signal_level = Some level\<rparr>))"

subsection \<open>File type against extension\<close>

definition file_signatures :: "(nat list \<times> string) list" where
  "file_signatures =
     [(bytes_of ''MZ'', ''exe''),
      ([127, 69, 76, 70], ''elf''),
      ([80, 75, 3, 4], ''zip''),
      ([80, 75, 5, 6], ''zip''),
      ([80, 75, 7, 8], ''zip''),
      ([31, 139], ''gz''),
      (bytes_of ''BZh'', ''bz2''),
      (bytes_of ''Rar!'', ''rar''),
      ([253, 55, 122, 88, 90, 0], ''xz''),
      ([137, 80, 78, 71], ''png''),
      ([255, 216, 255], ''jpg''),
      (bytes_of ''GIF8'', ''gif''),
      (bytes_of ''%PDF'', ''pdf''),
      (bytes_of ''%!PS-Adobe'', ''ps'')]"

definition executable_extensions :: "string list" where
  "executable_extensions =
     [''.exe'', ''.dll'', ''.sys'', ''.scr'', ''.com'', ''.pif'', ''.bat'', ''.cmd'',
      ''.vbs'', ''.js'', ''.jar'', ''.msi'', ''.cpl'', ''.app'', ''.elf'', ''.bin'',
      ''.sh'', ''.bash'', ''.py'', ''.pl'', ''.rb'', ''.php'', ''.ps1'']"

definition benign_extensions :: "string list" where
  "benign_extensions =
     [''.txt'', ''.doc'', ''.docx'', ''.xls'', ''.xlsx'', ''.ppt'', ''.pptx'',
      ''.pdf'', ''.jpg'', ''.jpeg'', ''.png'', ''.gif'', ''.bmp'', ''.mp3'', ''.mp4'',
      ''.avi'', ''.mkv'', ''.zip'', ''.rar'', ''.7z'', ''.tar'', ''.gz'', ''.log'']"

definition check_extension_mismatch :: "path \<Rightarrow> nat list \<Rightarrow> signal" where
  "check_extension_mismatch p data =
     (let extension = lower (path_suffix p) in
      case find (\<lambda>(signature, file_type). startswith data signature) file_signatures of
        None \<Rightarrow> \<lparr>signal_score = 0, signal_name = ''extension_mismatch'', signal_level = None\<rparr>
      | Some (signature, actual_type) \<Rightarrow>
          (if actual_type \<in> set [''exe'', ''elf''] \<and> extension \<in> set benign_extensions then
             \<lparr>signal_score = 25, signal_name = ''extension_mismatch'',
              signal_level = Some ''CRITICAL''\<rparr>
           else if actual_type = ''zip'' \<and> extension \<in> set [''.jpg'', ''.jpeg'', ''.png'', ''.gif'']
           then
             \<lparr>signal_score = 20, signal_name = ''extension_mismatch'',
              signal_level = Some ''HIGH''\<rparr>
           else if actual_type = ''txt'' \<and> extension \<in> set executable_extensions then
             \<lparr>signal_score = 10, signal_name = ''extension_mismatch'',
              signal_level = Some ''MEDIUM''\<rparr>
           else
             \<lparr>signal_score = 0, signal_name = ''extension_mismatch'', signal_level = None\<rparr>))"

subsection \<open>Suspicious strings\<close>

text \<open>
  The regular expressions of the engine use literal characters, \<^verbatim>\<open>\d+\<close> and \<^verbatim>\<open>.*\<close> only,
  and are compiled with \<^verbatim>\<open>re.IGNORECASE\<close>.  \<open>match_here\<close> is the length of the match of
  a pattern at the start of a text, if there is one: the repetitions are greedy and
  give characters back, longest first.  \<open>findall\<close> is \<^verbatim>\<open>pattern.findall(text)\<close>: the
  matched texts, from left to right, without overlap.  The texts of this model are
  ASCII texts: the case folding is that of the letters \<open>A\<close> to \<open>Z\<close> and the digits are
  \<open>0\<close> to \<open>9\<close>, as \<^verbatim>\<open>re\<close> folds and classifies ASCII characters; what \<^verbatim>\<open>re\<close> does with
  other code points is not modelled.
\<close>

datatype atom = Chr char | Digits | AnyStar

definition lit :: "string \<Rightarrow> atom list" where
  "lit s = map Chr s"

definition is_digit :: "char \<Rightarrow> bool" where
  "is_digit c = (48 \<le> (of_char c :: nat) \<and> (of_char c :: nat) \<le> 57)"

fun first_some :: "'a option list \<Rightarrow> 'a option" where
  "first_some [] = None"
| "first_some (None # xs) = first_some xs"
| "first_some (Some x # xs) = Some x"

fun match_here :: "atom list \<Rightarrow> string \<Rightarrow> nat option" where
  "match_here [] s = Some 0"
| "match_here (Chr c # r) [] = None"
| "match_here (Chr c # r) (x # xs) =
     (if char_lower x = char_lower c then map_option Suc (match_here r xs) else None)"
| "match_here (Digits # r) s =
     first_some (map (\<lambda>k. map_option (\<lambda>m. k + m) (match_here r (drop k s)))
                     (rev [1..<Suc (length (takeWhile is_digit s))]))"
| "match_here (AnyStar # r) s =
     first_some (map (\<lambda>k. map_option (\<lambda>m. k + m) (match_here r (drop k s)))
                     (rev [0..<Suc (length (takeWhile (\<lambda>c. c \<noteq> CHR 0x0A) s))]))"

fun findall_from :: "atom list \<Rightarrow> nat \<Rightarrow> string \<Rightarrow> string list" where
  "findall_from pat skip [] =
     (case match_here pat [] of Some m \<Rightarrow> (if skip = 0 then [[]] else []) | None \<Rightarrow> [])"
| "findall_from pat skip (c # cs) =
     (if skip > 0 then findall_from pat (skip - 1) cs
      else
        (case match_here pat (c # cs) of
           Some m \<Rightarrow> take m (c # cs) # findall_from pat (m - 1) cs
         | None \<Rightarrow> findall_from pat 0 cs))"

definition findall :: "atom list \<Rightarrow> string \<Rightarrow> string list" where
  "findall pat text = findall_from pat 0 text"

definition suspicious_patterns :: "atom list list" where
  "suspicious_patterns =
     [lit ''VirtualAlloc'', lit ''WriteProcessMemory'', lit ''CreateRemoteThread'',
      lit ''SetWindowsHookEx'',
      lit ''http://'' @ [Digits, Chr CHR ''.'', Digits, Chr CHR ''.'', Digits, Chr CHR ''.'', Digits],
      lit ''ftp://'' @ [AnyStar, Chr CHR ''@'', AnyStar],
      lit ''RegOpenKey'', lit ''RegSetValue'', lit ''RegDeleteValue'',
      lit ''base64'', lit ''xor'', lit ''rot13'', lit ''eval('',
      lit ''IsDebuggerPresent'', lit ''CheckRemoteDebuggerPresent'',
      lit ''NtQueryInformationProcess'',
      lit ''AES.encrypt'', lit ''Rijndael'', lit ''RC4'', lit ''DES'',
      lit ''socket('', lit ''bind('', lit ''listen('', lit ''connect('']"

text \<open>The loop that collects at most three matches of each pattern.\<close>

definition collect_matches :: "string \<Rightarrow> string list" where
  "collect_matches text_content =
     concat (map (\<lambda>pattern. take 3 (findall pattern text_content)) suspicious_patterns)"

definition strings_score :: "nat \<Rightarrow> int \<times> string" where
  "strings_score match_count =
     (if match_count \<ge> 10 then (25, ''CRITICAL'')
      else if match_count \<ge> 5 then (20, ''HIGH'')
      else if match_count \<ge> 3 then (15, ''MEDIUM'')
      else if match_count \<ge> 1 then (10, ''LOW'')
      else (5, ''LOW''))"

text \<open>
  \<^verbatim>\<open>_detect_suspicious_strings\<close>.  When there are matches, the method computes the
  score and then builds its result, whose \<^verbatim>\<open>details\<close> entry evaluates
  \<^verbatim>\<open>set(matches)[:5]\<close>: a set cannot be sliced, so building the result raises
  \<^verbatim>\<open>TypeError\<close>.  Nothing in the engine catches it.
\<close>

definition detect_suspicious_strings :: "env \<Rightarrow> nat list \<Rightarrow> error + signal" where
  "detect_suspicious_strings ev data =
     (let matches = collect_matches (decode_utf8 ev data) in
      if matches = [] then
        Inr \<lparr>signal_score = 0, signal_name = ''suspicious_strings'', signal_level = None\<rparr>
      else
        (let (score, level) = strings_score (length (remdups matches)) in
         Inl TypeError))"

subsection \<open>Packers\<close>

definition packing_signatures :: "(nat list \<times> string) list" where
  "packing_signatures =
     [(bytes_of ''UPX'', ''UPX Packer''), (bytes_of ''PECompact'', ''PECompact''),
      (bytes_of ''ASPack'', ''ASPack''), (bytes_of ''NSPack'', ''NSPack''),
      (bytes_of ''Petite'', ''Petite''), (bytes_of ''MEW'', ''MEW''),
      (bytes_of ''FSG'', ''FSG''), (bytes_of ''MPRESS'', ''MPRESS''),
      (bytes_of ''Themida'', ''Themida''), (bytes_of ''VMProtect'', ''VMProtect'')]"

text \<open>\<^verbatim>\<open>needle in haystack\<close> on bytes.\<close>

fun contains :: "'a list \<Rightarrow> 'a list \<Rightarrow> bool" where
  "contains [] needle = (needle = [])"
| "contains (x # xs) needle = (startswith (x # xs) needle \<or> contains xs needle)"

definition detect_packer :: "nat list \<Rightarrow> signal" where
  "detect_packer data =
     (case find (\<lambda>(signature, name). contains (take 1024 data) signature) packing_signatures of
        Some (signature, packer_name) \<Rightarrow>
          \<lparr>signal_score = 20, signal_name = ''packer_detected'', signal_level = Some ''HIGH''\<rparr>
      | None \<Rightarrow>
          (if signal_score (analyze_entropy data) \<ge> 20 then
             \<lparr>signal_score = 15, signal_name = ''packer_detected'', signal_level = Some ''MEDIUM''\<rparr>
           else
             \<lparr>signal_score = 0, signal_name = ''packer_detected'', signal_level = None\<rparr>))"

subsection \<open>The analysis of a file\<close>

text \<open>
  \<^verbatim>\<open>open(file_path, 'rb')\<close> and \<^verbatim>\<open>f.read(1024 * 1024)\<close>: the first MiB of a readable
  regular file; everything else raises an \<^verbatim>\<open>OSError\<close>.
\<close>

fun read_prefix :: "node option \<Rightarrow> nat \<Rightarrow> error + nat list" where
  "read_prefix None n = Inl FileNotFoundError"
| "read_prefix (Some (FileN f)) n =
     (if readable f then Inr (take n (content f)) else Inl PermissionError)"
| "read_prefix (Some (DirN l es)) n = Inl IsADirectoryError"
| "read_prefix (Some OtherN) n = Inl PermissionError"

text \<open>
  \<^verbatim>\<open>analyze_file\<close>.  \<open>add_signal\<close> is the step repeated for each of the four signals:
  a signal with a positive score is appended and its score is added to the total.
\<close>

definition add_signal :: "signal \<Rightarrow> signal list \<times> int \<Rightarrow> signal list \<times> int" where
  "add_signal s acc =
     (if signal_score s > 0 then (fst acc @ [s], snd acc + signal_score s) else acc)"

definition analyze_file :: "env \<Rightarrow> node \<Rightarrow> path \<Rightarrow> error + heuristic_result" where
  "analyze_file ev fs p =
     (if lookup fs p = None then Inr \<lparr>risk_score = 0, signals = []\<rparr>
      else
        (case read_prefix (lookup fs p) (1024 * 1024) of
           Inl e \<Rightarrow> Inr \<lparr>risk_score = 0, signals = []\<rparr>
         | Inr file_data \<Rightarrow>
             (let acc1 = add_signal (analyze_entropy file_data) ([], 0);
                  acc2 = add_signal (check_extension_mismatch p file_data) acc1
              in case detect_suspicious_strings ev file_data of
                   Inl e \<Rightarrow> Inl e
                 | Inr strings_result \<Rightarrow>
                     (let acc3 = add_signal strings_result acc2;
                          acc4 = add_signal (detect_packer file_data) acc3
                      in Inr \<lparr>risk_score = min (snd acc4) 100, signals = fst acc4\<rparr>))))"


section \<open>ML threat scorer: \<^verbatim>\<open>src/detection/ml_scoring.py\<close>\<close>

text \<open>
  Python floats are modelled as real numbers; the thresholds and weights are the
  decimal constants of the source.
\<close>

definition threshold_benign :: real where "threshold_benign = 3 / 10"
definition threshold_suspicious :: real where "threshold_suspicious = 6 / 10"
definition threshold_malicious :: real where "threshold_malicious = 8 / 10"

text \<open>\<^verbatim>\<open>MLThreatScorer._classify\<close>; the features argument is not read by the source.\<close>

definition classify :: "real \<Rightarrow> string \<times> real" where
  "classify ml_score =
     (let (classification, confidence) =
        (if ml_score \<ge> threshold_malicious then
           (''malicious'', (ml_score - threshold_malicious) / (1 - threshold_malicious))
         else if ml_score \<ge> threshold_suspicious then
           (''suspicious'',
            (ml_score - threshold_suspicious) / (threshold_malicious - threshold_suspicious))
         else if ml_score \<ge> threshold_benign then
           (''suspicious'',
            (ml_score - threshold_benign) / (threshold_suspicious - threshold_benign))
         else
           (''benign'', (threshold_benign - ml_score) / threshold_benign))
      in (classification, max 0 (min 1 confidence)))"

text \<open>
  The six features and the result of \<^verbatim>\<open>score_file\<close> (without its texts).
\<close>

record features =
  f_entropy :: real
  f_suspicious_strings :: real
  f_extension_mismatch :: real
  f_packer_detected :: real
  f_file_size_anomaly :: real
  f_rare_extension :: real

record ml_result =
  ml_score :: real
  classification :: string
  confidence :: real
  ml_features :: "features option"

definition rare_extensions :: "string list" where
  "rare_extensions =
     [''.vbs'', ''.js'', ''.wsf'', ''.ps1'', ''.bat'', ''.cmd'', ''.scr'',
      ''.pif'', ''.com'', ''.cpl'', ''.msc'', ''.jar'', ''.hta'']"

definition small_executable_threshold :: nat where
  "small_executable_threshold = 1024"

definition large_executable_threshold :: nat where
  "large_executable_threshold = 100 * 1024 * 1024"

text \<open>
  \<^verbatim>\<open>next((s for s in heuristic_result.get('signals', []) if s['name'] == n), {'score': 0})['score']\<close>:
  the score of the first signal of that name, or \<open>0\<close>.
\<close>

definition signal_score_of :: "heuristic_result \<Rightarrow> string \<Rightarrow> int" where
  "signal_score_of hr n =
     (case find (\<lambda>s. signal_name s = n) (signals hr) of
        None \<Rightarrow> 0
      | Some s \<Rightarrow> signal_score s)"

definition extract_features :: "env \<Rightarrow> node \<Rightarrow> path \<Rightarrow> heuristic_result \<Rightarrow> features" where
  "extract_features ev fs p hr =
     \<lparr>f_entropy = real_of_int (signal_score_of hr ''entropy'') / 30,
      f_suspicious_strings = real_of_int (signal_score_of hr ''suspicious_strings'') / 25,
      f_extension_mismatch = real_of_int (signal_score_of hr ''extension_mismatch'') / 25,
      f_packer_detected = real_of_int (signal_score_of hr ''packer_detected'') / 20,
      f_file_size_anomaly =
        (case st_size ev (lookup fs p) of
           Inl e \<Rightarrow> 0
         | Inr file_size \<Rightarrow>
             (if file_size < small_executable_threshold then 8 / 10
              else if file_size > large_executable_threshold then 6 / 10
              else 0)),
      f_rare_extension = (if lower (path_suffix p) \<in> set rare_extensions then 1 else 0)\<rparr>"

definition sigmoid :: "real \<Rightarrow> real" where
  "sigmoid x = 1 / (1 + exp (- x))"

text \<open>\<^verbatim>\<open>_calculate_ml_score\<close>: the weighted sum in the order of \<^verbatim>\<open>feature_weights\<close>.\<close>

definition calculate_ml_score :: "features \<Rightarrow> real" where
  "calculate_ml_score fe =
     sigmoid (0 + f_entropy fe * (25 / 100) + f_suspicious_strings fe * (20 / 100)
                + f_extension_mismatch fe * (20 / 100) + f_packer_detected fe * (15 / 100)
                + f_file_size_anomaly fe * (10 / 100) + f_rare_extension fe * (10 / 100))"

definition score_file :: "env \<Rightarrow> node \<Rightarrow> path \<Rightarrow> heuristic_result \<Rightarrow> ml_result" where
  "score_file ev fs p hr =
     (if lookup fs p = None then
        \<lparr>ml_score = 0, classification = ''unknown'', confidence = 0, ml_features = None\<rparr>
      else
        (let fe = extract_features ev fs p hr;
             s = calculate_ml_score fe;
             (c, conf) = classify s
         in \<lparr>ml_score = s, classification = c, confidence = conf, ml_features = Some fe\<rparr>))"

section \<open>Cloud client: \<^verbatim>\<open>src/cloud/cloud_sync.py\<close>\<close>

text \<open>
  The answer of the (simulated) cloud database for a hash, the reply of
  \<^verbatim>\<open>_query_cloud\<close>, and the dictionary that \<^verbatim>\<open>query_hash\<close> returns.  The cache maps a
  SHA-256 value to the reply that was cached for it.
\<close>

datatype verdict = Malicious string | Benign | Unknown

datatype cloud_reply = Success verdict | Offline string

datatype query_result =
    QDisabled string
  | QFound cloud_reply
  | QNotFound string
  | QCloud cloud_reply

record cloud_client =
  enabled :: bool
  cache :: "string \<rightharpoonup> cloud_reply"
  offline_mode :: bool

text \<open>
  What a call does besides computing: reading a file, hashing, looking into the
  cache, asking the cloud, writing the cache file.
\<close>

datatype io_event =
    ReadFile path
  | ComputeHashes
  | CacheLookup
  | CloudQuery string
  | CacheStore string
  | SaveCacheFile

text \<open>
  \<^verbatim>\<open>CloudSyncClient.__init__(enabled=False)\<close>; the argument is the content of the cache
  file, if there is a readable one.
\<close>

definition CloudSyncClient_init :: "bool \<Rightarrow> (string \<rightharpoonup> cloud_reply) option \<Rightarrow> cloud_client" where
  "CloudSyncClient_init en cache_file =
     \<lparr>enabled = en, cache = (case cache_file of None \<Rightarrow> Map.empty | Some c \<Rightarrow> c),
      offline_mode = False\<rparr>"

text \<open>
  \<^verbatim>\<open>get_cloud_client()\<close>: the client of the process.  The first argument is the module
  variable \<^verbatim>\<open>_cloud_client\<close>, which is \<^verbatim>\<open>None\<close> until the first call builds the client with
  \<^verbatim>\<open>CloudSyncClient()\<close>.  The flag \<^verbatim>\<open>enabled\<close> is kept in memory only: no file stores it.
\<close>

definition get_cloud_client ::
    "cloud_client option \<Rightarrow> (string \<rightharpoonup> cloud_reply) option \<Rightarrow> cloud_client" where
  "get_cloud_client slot cache_file =
     (case slot of None \<Rightarrow> CloudSyncClient_init False cache_file | Some c \<Rightarrow> c)"

definition is_enabled :: "cloud_client \<Rightarrow> bool" where
  "is_enabled c = enabled c"

text \<open>\<^verbatim>\<open>_calculate_hashes\<close>: the SHA-256 entry; it stays empty when reading fails.\<close>

definition calculate_sha256 :: "env \<Rightarrow> node \<Rightarrow> path \<Rightarrow> string" where
  "calculate_sha256 ev fs p =
     (case lookup fs p of
        Some (FileN f) \<Rightarrow>
          (if readable f then
             (case hashlib_new ev ''sha256'' of Some h \<Rightarrow> h (content f) | None \<Rightarrow> [])
           else [])
      | _ \<Rightarrow> [])"

definition query_cache :: "cloud_client \<Rightarrow> string option \<Rightarrow> query_result" where
  "query_cache c hash_value =
     (case (case hash_value of None \<Rightarrow> None | Some h \<Rightarrow> cache c h) of
        Some r \<Rightarrow> QFound r
      | None \<Rightarrow> QNotFound ''Hash not found in local cache'')"

definition simulate_cloud_response :: "string \<Rightarrow> verdict" where
  "simulate_cloud_response hash_value =
     (if hash_value = ''0000000000000000000000000000000000000000000000000000000000000001''
      then Malicious ''Trojan.GenericKD.12345''
      else if hash_value = ''0000000000000000000000000000000000000000000000000000000000000002''
      then Malicious ''Worm.AutoRun.67890''
      else if hash_value = ''1111111111111111111111111111111111111111111111111111111111111111''
      then Benign
      else Unknown)"

definition query_cloud :: "string \<Rightarrow> cloud_reply" where
  "query_cloud sha256 = Success (simulate_cloud_response sha256)"

text \<open>
  \<^verbatim>\<open>query_hash\<close>: the result, the client afterwards and what the call did.  In offline
  mode the method looks the \<^emph>\<open>path\<close> up in the cache, whose keys are hash values of
  another type: the lookup finds nothing (\<open>query_cache c None\<close>).
\<close>

definition query_hash ::
    "env \<Rightarrow> node \<Rightarrow> cloud_client \<Rightarrow> path \<Rightarrow> query_result \<times> cloud_client \<times> io_event list" where
  "query_hash ev fs c p =
     (if \<not> enabled c then
        (QDisabled ''Cloud sync is disabled. Enable with: hex-avg cloud enable'', c, [])
      else if offline_mode c then (query_cache c None, c, [CacheLookup])
      else
        (let sha256 = calculate_sha256 ev fs p;
             cache_result = query_cache c (Some sha256)
         in case cache_result of
              QFound r \<Rightarrow> (cache_result, c, [ReadFile p, ComputeHashes, CacheLookup])
            | _ \<Rightarrow>
                (let cloud_result = query_cloud sha256 in
                 case cloud_result of
                   Success v \<Rightarrow>
                     (QCloud cloud_result, c\<lparr>cache := (cache c)(sha256 \<mapsto> cloud_result)\<rparr>,
                      [ReadFile p, ComputeHashes, CacheLookup, CloudQuery sha256,
                       CacheStore sha256, SaveCacheFile])
                 | Offline m \<Rightarrow>
                     (QCloud cloud_result, c,
                      [ReadFile p, ComputeHashes, CacheLookup, CloudQuery sha256]))))"

section \<open>Consolidated command line: \<^verbatim>\<open>src/cli.py\<close>\<close>

text \<open>
  The body of the loop of the \<^verbatim>\<open>scan\<close> command for one file.  The classes \<^verbatim>\<open>Scanner\<close>,
  \<^verbatim>\<open>SignatureDatabase\<close> and \<^verbatim>\<open>HeuristicAnalyzer\<close> that the command imports are not in the
  sources; \<open>threat_found\<close> is \<^verbatim>\<open>signature_db.check_file(file_path)['threat_found']\<close>, and
  the result of \<^verbatim>\<open>heuristic_analyzer.analyze_file\<close> is not read by the command.

  \<open>combine_results\<close> is the expression bound to \<^verbatim>\<open>is_threat\<close>, evaluated from left to
  right as \<^verbatim>\<open>or\<close> does: its truth value, or the exception it raises.  A cloud result is
  a non-empty dictionary, hence truthy, and none of the dictionaries that
  \<^verbatim>\<open>query_hash\<close> returns has the key \<^verbatim>\<open>is_malicious\<close>.
\<close>

definition combine_results ::
    "bool \<Rightarrow> heuristic_result \<Rightarrow> ml_result option \<Rightarrow> query_result option \<Rightarrow> error + bool" where
  "combine_results threat_found advanced_heuristic_result ml_res cloud_result =
     (if threat_found then Inr True
      else if risk_score advanced_heuristic_result \<ge> 50 then Inr True
      else if (case ml_res of None \<Rightarrow> False | Some r \<Rightarrow> ml_score r \<ge> 7 / 10) then Inr True
      else (case cloud_result of
              None \<Rightarrow> Inr False
            | Some r \<Rightarrow> Inl (KeyError ''is_malicious'')))"

text \<open>
  One iteration: the flags \<^verbatim>\<open>--ml\<close> and \<^verbatim>\<open>--cloud\<close>, the cloud client of the process, the
  signature verdict and the file.  It returns the flag \<^verbatim>\<open>is_threat\<close> and the client,
  or the exception that ends the command.
\<close>

definition scan_step ::
    "env \<Rightarrow> node \<Rightarrow> bool \<Rightarrow> bool \<Rightarrow> cloud_client \<Rightarrow> bool \<Rightarrow> path
      \<Rightarrow> error + bool \<times> cloud_client" where
  "scan_step ev fs ml cloud client threat_found p =
     (case analyze_file ev fs p of
        Inl e \<Rightarrow> Inl e
      | Inr advanced_heuristic_result \<Rightarrow>
          (let ml_res = (if ml then Some (score_file ev fs p advanced_heuristic_result) else None);
               (cloud_result, client') =
                  (if cloud \<and> is_enabled client then
                     (case query_hash ev fs client p of (r, c', evs) \<Rightarrow> (Some r, c'))
                   else (None, client))
           in case combine_results threat_found advanced_heuristic_result ml_res cloud_result of
                Inl e \<Rightarrow> Inl e
              | Inr is_threat \<Rightarrow> Inr (is_threat, client')))"


section \<open>Example inputs\<close>

text \<open>
  A configuration with example values for the constants of the absent module
  \<^verbatim>\<open>config\<close> (the test string is the standard one), an environment for files of ASCII
  bytes (its decoder maps each byte to the character of that code, which is what
  decoding as UTF-8 gives for bytes below 128, the only ones in the example files),
  and a small file system.
\<close>

definition example_config :: config where
  "example_config =
     \<lparr>MIN_THREADS = 1, MAX_THREADS = 16, DEFAULT_THREADS = 4, MAX_SCAN_FILE_SIZE = 104857600,
      QUICK_SCAN_SKIP_EXTENSIONS = [''.zip''], IS_WINDOWS = False, IS_LINUX = True,
      BASE_DIR = [''home'', ''hexavg''],
      EICAR_STRING =
        ''X5O!P%@AP[4'' @ [CHR 0x5C] @ ''PZX54(P^)7CC)7}$EICAR-STANDARD-ANTIVIRUS-TEST-FILE!$H+H*'',
      HASH_ALGORITHMS = [''md5'', ''sha1'', ''sha256'']\<rparr>"

definition ascii_env :: "(string \<Rightarrow> (nat list \<Rightarrow> string) option) \<Rightarrow> env" where
  "ascii_env H = \<lparr>hashlib_new = H, dir_st_size = 4096, decode_utf8 = map char_of\<rparr>"

definition example_fs :: node where
  "example_fs =
     DirN True
       [(''home'', DirN True
          [(''hexavg'', DirN True []),
           (''scan'', DirN True
              [(''a'', DirN True
                 [(''b'', DirN True
                    [(''c'', DirN True
                       [(''deep.txt'',
                         FileN \<lparr>content = bytes_of ''hello'', readable = True\<rparr>)])])]),
               (''note.txt'', FileN \<lparr>content = bytes_of ''key = a xor b'', readable = True\<rparr>),
               (''clean.txt'', FileN \<lparr>content = bytes_of ''hello'', readable = True\<rparr>)])])]"

text \<open>
  A scan function that raises for one path and reports every other path as skipped.
\<close>

definition failing_scan_func :: scan_func where
  "failing_scan_func p =
     (if p = [''a.bin''] then Inl ''boom''
      else Inr \<lparr>file_path = p, status = ''skipped'', threats = Some [], hashes = Some [],
                error_msg = None, reason = Some ''File too large''\<rparr>)"

section \<open>Verified properties\<close>

subsection \<open>Thread-count clamping\<close>

text \<open>
  C8, as the claim states it, fails: a requested thread count of \<open>0\<close> is falsy, so
  the constructor replaces it by the configured default before clamping.  With the
  bounds \<open>1\<close> and \<open>16\<close> and the default \<open>4\<close> the pool gets \<open>4\<close> workers where the
  claimed formula gives \<open>1\<close>.
\<close>

theorem C8_zero_threads_counterexample:
  "ThreadManager_init example_config (Some 0)
   \<noteq> max (MIN_THREADS example_config) (min 0 (MAX_THREADS example_config))"
  by (simp add: ThreadManager_init_def int_or_def example_config_def)

text \<open>
  C8 (amended): for every requested thread count \<open>T\<close> other than \<open>0\<close> the effective
  worker-pool size equals \<open>max MIN_THREADS (min T MAX_THREADS)\<close>; for a request of \<open>0\<close>
  and for no request the same clamp is applied to \<open>DEFAULT_THREADS\<close>.
\<close>

theorem C8_thread_count_clamped:
  "(T \<noteq> 0 \<longrightarrow>
      ThreadManager_init cfg (Some T) = max (MIN_THREADS cfg) (min T (MAX_THREADS cfg)))
   \<and> ThreadManager_init cfg (Some 0)
      = max (MIN_THREADS cfg) (min (DEFAULT_THREADS cfg) (MAX_THREADS cfg))
   \<and> ThreadManager_init cfg None
      = max (MIN_THREADS cfg) (min (DEFAULT_THREADS cfg) (MAX_THREADS cfg))"
  by (simp add: ThreadManager_init_def int_or_def)

theorem C8_thread_count_clamped_witness:
  "ThreadManager_init example_config (Some 40) = 16
   \<and> ThreadManager_init example_config (Some (- 3)) = 1
   \<and> ThreadManager_init example_config (Some 8) = 8"
  using C8_thread_count_clamped [of 40 example_config]
    C8_thread_count_clamped [of "- 3" example_config]
    C8_thread_count_clamped [of 8 example_config]
  by (simp add: example_config_def)

subsection \<open>Classification thresholds\<close>

text \<open>
  C7: the classifier returns \<open>malicious\<close> exactly for scores of at least \<open>0.8\<close>,
  \<open>suspicious\<close> exactly for scores in \<open>[0.3, 0.8)\<close> and \<open>benign\<close> exactly for scores
  below \<open>0.3\<close>, and the confidence it returns lies in \<open>[0, 1]\<close>.  This holds for every
  real score, in particular for every score in \<open>[0, 1]\<close>.
\<close>

theorem C7_classify_thresholds:
  "(fst (classify s) = ''malicious'') = (s \<ge> 8 / 10)
   \<and> (fst (classify s) = ''suspicious'') = (3 / 10 \<le> s \<and> s < 8 / 10)
   \<and> (fst (classify s) = ''benign'') = (s < 3 / 10)
   \<and> 0 \<le> snd (classify s) \<and> snd (classify s) \<le> 1"
  by (simp add: classify_def threshold_benign_def threshold_suspicious_def
        threshold_malicious_def)

subsection \<open>The EICAR self-test of the first command line\<close>

lemma map_of_put_entry: "map_of (put_entry x n es) x = Some n"
  by (induction es) auto

lemma lookup_write_text:
  "write_text fs p s = Inr fs' \<Longrightarrow>
     lookup fs' p = Some (FileN \<lparr>content = map of_char s, readable = True\<rparr>)"
proof (induction fs p s arbitrary: fs' rule: write_text.induct)
  case (2 l es x bs)
  then show ?case by (auto simp: map_of_put_entry split: option.splits node.splits)
next
  case (3 l es x y ys bs)
  then show ?case by (auto simp: map_of_put_entry split: option.splits sum.splits)
qed simp_all

text \<open>
  Scanning a path that is a regular file raises \<^verbatim>\<open>ValueError\<close>: the traversal accepts
  directories only, and nothing between it and the caller of \<^verbatim>\<open>scan\<close> catches.
\<close>

lemma scan_regular_file:
  "lookup fs p = Some (FileN f) \<Longrightarrow> snd (scan sc ev cfg fs p q cb completion) = Inl ValueError"
  by (simp add: scan_def get_files_list_def)

text \<open>
  Whatever the configuration and the file system are, the scan of the self-test
  returns no statistics: writing the test file fails, or the scan of the file that
  was written raises.
\<close>

lemma benchmark_scan_raises: "\<exists>e. benchmark_scan ev cfg fs completion = Inl e"
proof (cases "write_text fs (BASE_DIR cfg @ [''eicar.txt'']) (EICAR_STRING cfg)")
  case (Inl e)
  then show ?thesis by (simp add: benchmark_scan_def)
next
  case (Inr fs')
  from lookup_write_text [OF Inr] show ?thesis
    using Inr by (simp add: benchmark_scan_def scan_regular_file)
qed

text \<open>
  The detector slots of a scanner are empty after construction and no code fills
  them, so a per-file scan of such a scanner reports no threat of any type.
\<close>

lemma scan_file_no_detectors:
  "threats (scan_file (HEXAVGScanner_init cfg thr eh ey) ev cfg fs p) = Some []"
  by (simp add: scan_file_def HEXAVGScanner_init_def Let_def signature_step_def
        heuristic_step_def yara_step_def split: sum.splits)

text \<open>
  C1 fails on the code.  On the example file system, whose base directory exists, the
  command writes the test file and its scan raises \<^verbatim>\<open>ValueError\<close> (the path is no
  directory): the scan returns no statistics, so neither a \<open>signature\<close> threat entry
  nor a count of threats, and the command ends with the exception.
\<close>

theorem C1_benchmark_eicar_scan_raises:
  "benchmark_scan ev example_config example_fs completion = Inl ValueError
   \<and> benchmark ev example_config example_fs True completion = Inl ValueError"
  by (simp add: benchmark_def benchmark_scan_def example_config_def example_fs_def
        scan_regular_file)

subsection \<open>Depth of the traversal\<close>

text \<open>
  The depth test compares an entry with the directory that is being listed, not with
  the root of the traversal: it does not depend on how deep the entry is.
\<close>

lemma within_depth_entry:
  "within_depth ft (root_path @ [name]) root_path =
     (case max_depth ft of None \<Rightarrow> True | Some d \<Rightarrow> 1 < d)"
  by (simp add: within_depth_def split: option.splits)

text \<open>
  Hence a maximum depth of \<open>2\<close> or more bounds nothing: the traversal yields
  what the unlimited traversal yields.
\<close>

lemma bump_max_depth:
  "max_depth (bump_files_scanned ft) = max_depth ft"
  "max_depth (bump_files_skipped ft) = max_depth ft"
  "max_depth (bump_dirs_scanned ft) = max_depth ft"
  "max_depth (bump_dirs_skipped ft) = max_depth ft"
  "max_depth (bump_permission_errors ft) = max_depth ft"
  by (simp_all add: bump_files_scanned_def bump_files_skipped_def bump_dirs_scanned_def
        bump_dirs_skipped_def bump_permission_errors_def)

lemma bump_unlimited:
  "bump_files_scanned (ft\<lparr>max_depth := None\<rparr>) = (bump_files_scanned ft)\<lparr>max_depth := None\<rparr>"
  "bump_files_skipped (ft\<lparr>max_depth := None\<rparr>) = (bump_files_skipped ft)\<lparr>max_depth := None\<rparr>"
  "bump_dirs_scanned (ft\<lparr>max_depth := None\<rparr>) = (bump_dirs_scanned ft)\<lparr>max_depth := None\<rparr>"
  "bump_dirs_skipped (ft\<lparr>max_depth := None\<rparr>) = (bump_dirs_skipped ft)\<lparr>max_depth := None\<rparr>"
  "bump_permission_errors (ft\<lparr>max_depth := None\<rparr>)
     = (bump_permission_errors ft)\<lparr>max_depth := None\<rparr>"
  by (simp_all add: bump_files_scanned_def bump_files_skipped_def bump_dirs_scanned_def
        bump_dirs_skipped_def bump_permission_errors_def)

lemma should_skip_unlimited:
  "should_skip (ft\<lparr>max_depth := None\<rparr>) p isd ex = should_skip ft p isd ex"
  by (simp add: should_skip_def is_hidden_def is_system_dir_def)

lemma traverse_keeps_max_depth:
  "max_depth (fst (snd (traverse ft ef se root_path n))) = max_depth ft"
  "max_depth (fst (snd (traverse_entries ft ef se root_path es))) = max_depth ft"
proof (induction ft ef se root_path n and ft ef se root_path es
    rule: traverse_traverse_entries.induct)
  case (4 ft ef se root_path listable es)
  then show ?case by (auto simp: bump_max_depth split: prod.splits option.splits)
next
  case (6 ft ef se root_path name nd es)
  then show ?case
    by (auto simp: bump_max_depth Let_def split: prod.splits option.splits if_splits)
qed simp_all

lemma within_depth_two:
  "max_depth ft = Some d \<Longrightarrow> 2 \<le> d \<Longrightarrow> within_depth ft (root_path @ [name]) root_path"
  by (simp add: within_depth_def)

lemma within_depth_unlimited: "within_depth (ft\<lparr>max_depth := None\<rparr>) p q"
  by (simp add: within_depth_def)

lemma traverse_depth_two_unlimited:
  assumes "2 \<le> d"
  shows "max_depth ft = Some d \<Longrightarrow>
           traverse (ft\<lparr>max_depth := None\<rparr>) ef se root_path n
           = (case traverse ft ef se root_path n of
                (ys, ft', err) \<Rightarrow> (ys, ft'\<lparr>max_depth := None\<rparr>, err))"
    and "max_depth ft = Some d \<Longrightarrow>
           traverse_entries (ft\<lparr>max_depth := None\<rparr>) ef se root_path es
           = (case traverse_entries ft ef se root_path es of
                (ys, ft', err) \<Rightarrow> (ys, ft'\<lparr>max_depth := None\<rparr>, err))"
proof (induction ft ef se root_path n and ft ef se root_path es
    rule: traverse_traverse_entries.induct)
  case (4 ft ef se root_path listable es)
  then show ?case
    by (auto simp: bump_unlimited split: prod.splits option.splits)
next
  case (6 ft ef se root_path name nd es)
  let ?x = "root_path @ [name]"
  let ?R = "\<lambda>t. case traverse_entries t ef se root_path es of
                (ys, ft', err) \<Rightarrow> (ys, ft'\<lparr>max_depth := None\<rparr>, err)"
  from "6.prems" have md: "max_depth ft = Some d" .
  note simps = Let_def should_skip_unlimited bump_unlimited within_depth_unlimited
    bump_max_depth md
  show ?case
  proof (cases "should_skip ft ?x (is_dir (Some nd)) True")
    case True
    from "6.IH"(1) [OF refl True] md
    have "traverse_entries ((if is_dir (Some nd) then bump_dirs_skipped ft
              else bump_files_skipped ft)\<lparr>max_depth := None\<rparr>) ef se root_path es
          = ?R (if is_dir (Some nd) then bump_dirs_skipped ft else bump_files_skipped ft)"
      by (simp add: bump_max_depth)
    with True show ?thesis by (auto simp: simps split: if_splits)
  next
    case nskip: False
    show ?thesis
    proof (cases "is_dir (Some nd)")
      case isd: True
      let ?xa = "bump_dirs_scanned ft"
      have wd: "within_depth ?xa ?x root_path"
        using md assms by (simp add: within_depth_two bump_max_depth)
      from "6.IH"(2) [OF refl nskip isd refl wd] md
      have t: "traverse (?xa\<lparr>max_depth := None\<rparr>) ef se ?x (Some nd)
             = (case traverse ?xa ef se ?x (Some nd) of
                  (ys, ft', err) \<Rightarrow> (ys, ft'\<lparr>max_depth := None\<rparr>, err))"
        by (simp add: bump_max_depth)
      obtain ys ft2 e where r: "traverse ?xa ef se ?x (Some nd) = (ys, ft2, e)"
        by (metis prod_cases3)
      have md2: "max_depth ft2 = Some d"
        using traverse_keeps_max_depth(1) [of ?xa ef se ?x "Some nd"] r md
        by (simp add: bump_max_depth)
      show ?thesis
      proof (cases e)
        case None
        from "6.IH"(3) [OF refl nskip isd refl wd, of ys "(ft2, e)" ft2 e] r None md2
        have "traverse_entries (ft2\<lparr>max_depth := None\<rparr>) ef se root_path es = ?R ft2"
          by simp
        with nskip isd wd t r None show ?thesis
          by (simp add: simps split: prod.splits)
      next
        case (Some x2)
        show ?thesis
        proof (cases "is_OSError x2")
          case True
          from "6.IH"(4) [OF refl nskip isd refl wd, of ys "(ft2, e)" ft2 e x2] r Some True md2
          have "traverse_entries ((bump_permission_errors ft2)\<lparr>max_depth := None\<rparr>)
                  ef se root_path es = ?R (bump_permission_errors ft2)"
            by (simp add: bump_max_depth)
          with nskip isd wd t r Some True show ?thesis
            by (simp add: simps split: prod.splits)
        next
          case False
          with nskip isd wd t r Some show ?thesis
            by (simp add: simps)
        qed
      qed
    next
      case nisd: False
      note ihs = "6.IH"(6-10) [OF refl nskip nisd, simplified bump_max_depth md]
      from nskip nisd ihs show ?thesis
        by (auto simp: simps split: prod.splits)
    qed
  qed
qed simp_all

lemma traverse_yields_unlimited:
  "2 \<le> d \<Longrightarrow>
   fst (traverse (FileTraversal_init cfg sh ss (Some d)) ef se root_path n)
   = fst (traverse (FileTraversal_init cfg sh ss None) ef se root_path n)"
  using traverse_depth_two_unlimited(1)
          [of d "FileTraversal_init cfg sh ss (Some d)" ef se root_path n]
  by (simp add: FileTraversal_init_def case_prod_beta)

text \<open>
  C4 fails on the code.  With a maximum depth of \<open>2\<close>, the traversal of
  \<^verbatim>\<open>home/scan\<close> yields \<^verbatim>\<open>home/scan/a/b/c/deep.txt\<close>, a file three directory levels (four
  path components) below the root.
\<close>

theorem C4_max_depth_not_enforced:
  "fst (traverse (FileTraversal_init example_config True True (Some 2)) None None
          [''home'', ''scan''] (lookup example_fs [''home'', ''scan'']))
   = [[''home'', ''scan'', ''a'', ''b'', ''c'', ''deep.txt''],
      [''home'', ''scan'', ''note.txt''],
      [''home'', ''scan'', ''clean.txt'']]"
  by (simp add: example_fs_def example_config_def FileTraversal_init_def should_skip_def
        is_hidden_def is_system_dir_def get_system_directories_def startswith_def path_name_def
        within_depth_def bump_dirs_scanned_def bump_files_scanned_def)

subsection \<open>Results of a batch and their count\<close>

text \<open>
  With a progress callback that returns (or none), \<^verbatim>\<open>scan_files\<close> gives one result for
  each completed task, in the order of completion: the result of the scan function,
  or the synthetic \<open>error\<close> result with the message of its exception.
\<close>

lemma scan_files_loop_quiet:
  assumes "case cb of None \<Rightarrow> True | Some g \<Rightarrow> \<forall>a b q. g a b q = None"
  shows "fst (scan_files_loop paths f cb order acc n tm)
         = acc @ map (\<lambda>i. case f (paths ! i) of Inr r \<Rightarrow> r
                                | Inl msg \<Rightarrow> error_result (paths ! i) msg) order"
  using assms
proof (induction order arbitrary: acc n tm)
  case Nil
  then show ?case by simp
next
  case (Cons i order)
  note ih = Cons.IH [OF Cons.prems]
  show ?case
  proof (cases cb)
    case None
    with ih show ?thesis by (simp add: Let_def split: sum.splits)
  next
    case (Some g)
    with Cons.prems have quiet: "\<And>a b q. g a b q = None" by simp
    from ih Some show ?thesis
      by (simp add: Let_def quiet split: sum.splits)
  qed
qed

lemma scan_files_quiet:
  assumes "case cb of None \<Rightarrow> True | Some g \<Rightarrow> \<forall>a b q. g a b q = None"
  shows "fst (scan_files tm paths f cb order)
         = map (\<lambda>i. case f (paths ! i) of Inr r \<Rightarrow> r
                          | Inl msg \<Rightarrow> error_result (paths ! i) msg) order"
  by (simp add: scan_files_def scan_files_loop_quiet [OF assms])

text \<open>
  If moreover every submitted task completes once, the results are the outcomes of
  the submitted paths, one for each path.
\<close>

lemma scan_files_one_result_per_path:
  assumes "case cb of None \<Rightarrow> True | Some g \<Rightarrow> \<forall>a b q. g a b q = None"
    and "mset order = mset [0..<length paths]"
  shows "mset (fst (scan_files tm paths f cb order))
         = image_mset (\<lambda>p. case f p of Inr r \<Rightarrow> r | Inl msg \<Rightarrow> error_result p msg)
             (mset paths)"
proof -
  let ?h = "\<lambda>p. case f p of Inr r \<Rightarrow> r | Inl msg \<Rightarrow> error_result p msg"
  have "mset (fst (scan_files tm paths f cb order)) = mset (map (\<lambda>i. ?h (paths ! i)) order)"
    by (simp add: scan_files_quiet [OF assms(1)])
  also have "\<dots> = image_mset (\<lambda>i. ?h (paths ! i)) (mset [0..<length paths])"
    using assms(2) by (metis mset_map)
  also have "\<dots> = mset (map ?h (map (\<lambda>i. paths ! i) [0..<length paths]))"
    by (simp add: comp_def)
  also have "\<dots> = image_mset ?h (mset paths)"
    by (simp add: map_nth)
  finally show ?thesis .
qed

text \<open>
  When every result has the key \<^verbatim>\<open>threats\<close>, the scanner counts every result, and
  every result whose status is \<open>skipped\<close> or \<open>error\<close> as skipped.
\<close>

lemma process_scan_results_counts:
  "list_all (\<lambda>r. threats r \<noteq> None) rs \<Longrightarrow>
     snd (process_scan_results st rs) = None
     \<and> stat_files_scanned (fst (process_scan_results st rs)) = stat_files_scanned st + length rs
     \<and> stat_files_skipped (fst (process_scan_results st rs))
         = stat_files_skipped st
           + length (filter (\<lambda>r. status r = ''skipped'' \<or> status r = ''error'') rs)"
proof (induction rs arbitrary: st)
  case Nil
  then show ?case by simp
next
  case (Cons r rs)
  then obtain ts where ts: "threats r = Some ts" by auto
  from Cons have "list_all (\<lambda>r. threats r \<noteq> None) rs" by simp
  note ih = Cons.IH [OF this]
  show ?case by (simp add: ts Let_def ih)
qed

text \<open>
  C5 fails on the code where its two halves meet.  For the two paths \<^verbatim>\<open>a.bin\<close> and
  \<^verbatim>\<open>b.bin\<close> and a scan function that raises for the first and reports the second as
  skipped, \<^verbatim>\<open>scan_files\<close> returns the synthetic \<open>error\<close> result and the \<open>skipped\<close>
  result.  The synthetic result has no key \<^verbatim>\<open>threats\<close>, so the scanner's counting of
  these results raises \<^verbatim>\<open>KeyError\<close> at the first of them: the second result is never
  counted (one file skipped instead of two) and the scan ends with the exception.
\<close>

theorem C5_synthetic_error_result_aborts_count:
  "fst (scan_files tm [[''a.bin''], [''b.bin'']] failing_scan_func None [0, 1])
     = [\<lparr>file_path = [''a.bin''], status = ''error'', threats = None, hashes = None,
          error_msg = Some ''boom'', reason = None\<rparr>,
        \<lparr>file_path = [''b.bin''], status = ''skipped'', threats = Some [], hashes = Some [],
          error_msg = None, reason = Some ''File too large''\<rparr>]
   \<and> process_scan_results
        \<lparr>stat_files_scanned = 0, stat_files_skipped = 0, stat_threats_found = 0,
         stat_threats = []\<rparr>
        (fst (scan_files tm [[''a.bin''], [''b.bin'']] failing_scan_func None [0, 1]))
     = (\<lparr>stat_files_scanned = 1, stat_files_skipped = 1, stat_threats_found = 0,
         stat_threats = []\<rparr>, Some (KeyError ''threats''))"
  by (simp add: scan_files_def failing_scan_func_def error_result_def)

text \<open>
  The same end through \<^verbatim>\<open>HEXAVGScanner.scan\<close> itself: a progress callback that raises
  makes \<^verbatim>\<open>scan_files\<close> append a synthetic result after the file's own result, and the
  scan of a directory with one file raises \<^verbatim>\<open>KeyError\<close>.
\<close>

lemma scanner_init_fields:
  "traversal (HEXAVGScanner_init cfg thr eh ey) = FileTraversal_init cfg True True None"
  "scan_stats (HEXAVGScanner_init cfg thr eh ey)
     = \<lparr>stat_files_scanned = 0, stat_files_skipped = 0, stat_threats_found = 0,
        stat_threats = []\<rparr>"
  by (simp_all add: HEXAVGScanner_init_def Let_def)

lemma deep_files_list:
  "snd (get_files_list (FileTraversal_init example_config True True None) example_fs
          [''home'', ''scan'', ''a'', ''b'', ''c''] None None)
   = Inr [[''home'', ''scan'', ''a'', ''b'', ''c'', ''deep.txt'']]"
  by (simp add: get_files_list_def example_fs_def example_config_def FileTraversal_init_def
        should_skip_def is_hidden_def is_system_dir_def get_system_directories_def
        startswith_def path_name_def bump_files_scanned_def)

lemma scan_raising_callback:
  "snd (scan (HEXAVGScanner_init example_config None True False) ev example_config
          example_fs [''home'', ''scan'', ''a'', ''b'', ''c''] False
          (Some (\<lambda>completed total_files current. Some ''callback failed'')) (\<lambda>n. [0..<n]))
   = Inl (KeyError ''threats'')"
proof -
  have l: "lookup example_fs [''home'', ''scan'', ''a'', ''b'', ''c''] \<noteq> None"
    by (simp add: example_fs_def)
  obtain ft where g: "get_files_list (FileTraversal_init example_config True True None) example_fs
          [''home'', ''scan'', ''a'', ''b'', ''c''] None None
        = (ft, Inr [[''home'', ''scan'', ''a'', ''b'', ''c'', ''deep.txt'']])"
    using deep_files_list by (metis prod.collapse)
  show ?thesis
    by (simp add: scan_def l g scanner_init_fields scan_files_def Let_def
          scan_file_no_detectors error_result_def split: prod.splits)
qed

subsection \<open>Risk score of the advanced heuristic engine\<close>

lemma decode_ascii: "decode_utf8 (ascii_env H) (bytes_of s) = s"
  by (simp add: ascii_env_def bytes_of_def comp_def)

lemma collect_matches_nonempty:
  "pat \<in> set suspicious_patterns \<Longrightarrow> findall pat txt \<noteq> [] \<Longrightarrow> collect_matches txt \<noteq> []"
  by (auto simp: collect_matches_def intro!: bexI [of _ pat])

text \<open>
  A readable file in whose first MiB one of the patterns matches makes the analysis
  raise \<^verbatim>\<open>TypeError\<close>.
\<close>

lemma analyze_file_raises:
  "lookup fs p = Some (FileN f) \<Longrightarrow> readable f \<Longrightarrow>
   collect_matches (decode_utf8 ev (take (1024 * 1024) (content f))) \<noteq> [] \<Longrightarrow>
   analyze_file ev fs p = Inl TypeError"
  by (simp add: analyze_file_def detect_suspicious_strings_def Let_def split: prod.splits)

lemma findall_xor: "findall (lit ''xor'') ''key = a xor b'' = [''xor'']"
  by code_simp

text \<open>
  The file \<^verbatim>\<open>home/scan/note.txt\<close> is readable and holds the text \<^verbatim>\<open>key = a xor b\<close>, in
  which the pattern \<^verbatim>\<open>xor\<close> matches.
\<close>

lemma analyze_note_raises:
  "analyze_file (ascii_env H) example_fs [''home'', ''scan'', ''note.txt''] = Inl TypeError"
proof -
  have m: "collect_matches ''key = a xor b'' \<noteq> []"
    by (rule collect_matches_nonempty [of "lit ''xor''"])
       (simp_all add: suspicious_patterns_def findall_xor)
  have l: "lookup example_fs [''home'', ''scan'', ''note.txt'']
             = Some (FileN \<lparr>content = bytes_of ''key = a xor b'', readable = True\<rparr>)"
    by (simp add: example_fs_def)
  have t: "take 1048576 (bytes_of ''key = a xor b'') = bytes_of ''key = a xor b''"
    by (simp add: bytes_of_def)
  show ?thesis
    by (rule analyze_file_raises [OF l]) (simp_all add: t decode_ascii m)
qed

text \<open>
  C6 fails on the code.  The file \<^verbatim>\<open>home/scan/note.txt\<close> is readable and holds the text
  \<^verbatim>\<open>key = a xor b\<close>; the pattern \<^verbatim>\<open>xor\<close> matches, and \<^verbatim>\<open>analyze_file\<close> raises \<^verbatim>\<open>TypeError\<close>
  instead of returning a risk score.
\<close>

theorem C6_analyze_file_raises_on_match:
  "analyze_file (ascii_env H) example_fs [''home'', ''scan'', ''note.txt''] = Inl TypeError"
  by (rule analyze_note_raises)

text \<open>What the four steps return: the name of the signal and the range of its score.\<close>

lemma entropy_signal:
  "signal_name (analyze_entropy d) = ''entropy'' \<and> 0 \<le> signal_score (analyze_entropy d)
   \<and> signal_score (analyze_entropy d) \<le> 30"
  by (simp add: analyze_entropy_def entropy_score_def split: prod.splits)

lemma mismatch_signal:
  "signal_name (check_extension_mismatch p d) = ''extension_mismatch''
   \<and> 0 \<le> signal_score (check_extension_mismatch p d)
   \<and> signal_score (check_extension_mismatch p d) \<le> 25"
  by (simp add: check_extension_mismatch_def Let_def split: option.splits prod.splits)

lemma packer_signal:
  "signal_name (detect_packer d) = ''packer_detected'' \<and> 0 \<le> signal_score (detect_packer d)
   \<and> signal_score (detect_packer d) \<le> 20"
  by (simp add: detect_packer_def split: option.splits prod.splits)

lemma strings_signal:
  "detect_suspicious_strings ev d = Inr s \<Longrightarrow>
     signal_name s = ''suspicious_strings'' \<and> signal_score s = 0"
  by (auto simp: detect_suspicious_strings_def Let_def split: if_splits prod.splits)

text \<open>
  A result of \<^verbatim>\<open>analyze_file\<close> is the zero result of a file that could not be read, or
  it is built from the four signals of the data that was read.
\<close>

lemma analyze_file_cases:
  assumes "analyze_file ev fs p = Inr hr"
  obtains (unread) "signals hr = []" "risk_score hr = 0"
  | (analysed) d st where "detect_suspicious_strings ev d = Inr st"
      "signals hr = fst (add_signal (detect_packer d) (add_signal st
         (add_signal (check_extension_mismatch p d) (add_signal (analyze_entropy d) ([], 0)))))"
      "risk_score hr = min (snd (add_signal (detect_packer d) (add_signal st
         (add_signal (check_extension_mismatch p d) (add_signal (analyze_entropy d) ([], 0)))))) 100"
  using assms
  by (auto simp: analyze_file_def Let_def split: if_splits sum.splits)

lemma set_add_signal: "set (fst (add_signal x acc)) \<subseteq> insert x (set (fst acc))"
  by (auto simp: add_signal_def)

lemma add_signal_sum:
  "snd acc = sum_list (map signal_score (fst acc)) \<Longrightarrow>
   snd (add_signal x acc) = sum_list (map signal_score (fst (add_signal x acc)))"
  by (simp add: add_signal_def)

lemma add_signal_nonneg: "0 \<le> snd acc \<Longrightarrow> 0 \<le> snd (add_signal x acc)"
  by (simp add: add_signal_def)

text \<open>
  Whenever \<^verbatim>\<open>analyze_file\<close> returns, the risk score is the sum of the scores of the
  signals it reports, capped at \<open>100\<close>, and lies between \<open>0\<close> and \<open>100\<close>.
\<close>

lemma analyze_file_risk:
  assumes "analyze_file ev fs p = Inr hr"
  shows "risk_score hr = min (sum_list (map signal_score (signals hr))) 100
         \<and> 0 \<le> risk_score hr \<and> risk_score hr \<le> 100"
  using assms
proof (cases rule: analyze_file_cases)
  case unread
  then show ?thesis by simp
next
  case (analysed d st)
  let ?acc = "add_signal (detect_packer d) (add_signal st
         (add_signal (check_extension_mismatch p d) (add_signal (analyze_entropy d) ([], 0))))"
  have "snd ?acc = sum_list (map signal_score (fst ?acc))"
    by (intro add_signal_sum) simp
  moreover have "0 \<le> snd ?acc"
    by (intro add_signal_nonneg) simp
  ultimately show ?thesis using analysed by simp
qed

lemma set_four_signals:
  "set (fst (add_signal a (add_signal b (add_signal c (add_signal e ([], 0))))))
     \<subseteq> {a, b, c, e}"
  using set_add_signal [of a "add_signal b (add_signal c (add_signal e ([], 0)))"]
    set_add_signal [of b "add_signal c (add_signal e ([], 0))"]
    set_add_signal [of c "add_signal e ([], 0)"] set_add_signal [of e "([], 0)"]
  by auto

lemma analyze_file_signal_bounds:
  assumes "analyze_file ev fs p = Inr hr" and "s \<in> set (signals hr)"
  shows "0 \<le> signal_score s \<and>
         signal_score s \<le> (if signal_name s = ''entropy'' then 30
                             else if signal_name s = ''packer_detected'' then 20 else 25)"
  using assms(1)
proof (cases rule: analyze_file_cases)
  case unread
  with assms(2) show ?thesis by simp
next
  case (analysed d st)
  from assms(2) analysed(2)
    set_four_signals [of "detect_packer d" st "check_extension_mismatch p d" "analyze_entropy d"]
  have "s \<in> {detect_packer d, st, check_extension_mismatch p d, analyze_entropy d}"
    by auto
  then consider "s = detect_packer d" | "s = st" | "s = check_extension_mismatch p d"
    | "s = analyze_entropy d"
    by blast
  then show ?thesis
  proof cases
    case 1
    with packer_signal [of d] show ?thesis by simp
  next
    case 2
    with strings_signal [OF analysed(1)] show ?thesis by simp
  next
    case 3
    with mismatch_signal [of p d] show ?thesis by simp
  next
    case 4
    with entropy_signal [of d] show ?thesis by simp
  qed
qed

subsection \<open>Score of the ML scorer\<close>

lemma find_SomeD: "find P xs = Some x \<Longrightarrow> x \<in> set xs \<and> P x"
  by (induction xs) (auto split: if_splits)

lemma signal_score_of_bounds:
  assumes "analyze_file ev fs p = Inr hr"
  shows "0 \<le> signal_score_of hr n \<and>
         signal_score_of hr n \<le> (if n = ''entropy'' then 30
                                   else if n = ''packer_detected'' then 20 else 25)"
proof (cases "find (\<lambda>s. signal_name s = n) (signals hr)")
  case None
  then show ?thesis by (simp add: signal_score_of_def)
next
  case (Some s)
  from find_SomeD [OF Some] have "s \<in> set (signals hr)" and n: "signal_name s = n"
    by simp_all
  from analyze_file_signal_bounds [OF assms this(1)] n Some
  show ?thesis by (auto simp: signal_score_of_def split: if_splits)
qed

text \<open>
  The six features that are extracted from a result of the heuristic engine lie in
  \<open>[0, 1]\<close>.
\<close>

lemma features_unit:
  assumes "analyze_file ev' fs' p' = Inr hr"
  shows "0 \<le> f_entropy (extract_features ev fs p hr)
       \<and> f_entropy (extract_features ev fs p hr) \<le> 1
       \<and> 0 \<le> f_suspicious_strings (extract_features ev fs p hr)
       \<and> f_suspicious_strings (extract_features ev fs p hr) \<le> 1
       \<and> 0 \<le> f_extension_mismatch (extract_features ev fs p hr)
       \<and> f_extension_mismatch (extract_features ev fs p hr) \<le> 1
       \<and> 0 \<le> f_packer_detected (extract_features ev fs p hr)
       \<and> f_packer_detected (extract_features ev fs p hr) \<le> 1
       \<and> 0 \<le> f_file_size_anomaly (extract_features ev fs p hr)
       \<and> f_file_size_anomaly (extract_features ev fs p hr) \<le> 1
       \<and> 0 \<le> f_rare_extension (extract_features ev fs p hr)
       \<and> f_rare_extension (extract_features ev fs p hr) \<le> 1"
  using signal_score_of_bounds [OF assms, of "''entropy''"]
    signal_score_of_bounds [OF assms, of "''suspicious_strings''"]
    signal_score_of_bounds [OF assms, of "''extension_mismatch''"]
    signal_score_of_bounds [OF assms, of "''packer_detected''"]
  by (simp add: extract_features_def split: sum.splits)

lemma sigmoid_bounds:
  assumes "0 \<le> x" and "x \<le> 1"
  shows "1 / 2 \<le> sigmoid x \<and> sigmoid x \<le> 1 / (1 + exp (- 1))"
proof -
  have a: "exp (- x) \<le> 1" using assms(1) by simp
  have b: "exp (- 1) \<le> exp (- x)" using assms(2) by simp
  have c: "0 < exp (- x)" and d: "0 < exp (- 1 :: real)" by simp_all
  have "1 / 2 \<le> 1 / (1 + exp (- x))"
    using a c by (intro divide_left_mono) (simp_all add: add_pos_pos)
  moreover have "1 / (1 + exp (- x)) \<le> 1 / (1 + exp (- 1))"
    using b c d by (intro divide_left_mono) (simp_all add: add_pos_pos)
  ultimately show ?thesis by (simp add: sigmoid_def)
qed

lemma sigmoid_one_below_malicious: "1 / (1 + exp (- 1 :: real)) < 8 / 10"
proof -
  have "exp (1 :: real) \<le> 3" by (rule exp_le)
  moreover have "0 < exp (1 :: real)" by simp
  ultimately have "1 / 3 \<le> 1 / exp (1 :: real)"
    by (intro divide_left_mono) simp_all
  then have "1 / 3 \<le> exp (- 1 :: real)"
    by (simp add: exp_minus inverse_eq_divide)
  then have "4 / 3 \<le> 1 + exp (- 1 :: real)" by simp
  then have "1 / (1 + exp (- 1 :: real)) \<le> 1 / (4 / 3)"
    by (intro divide_left_mono) simp_all
  then show ?thesis by simp
qed

lemma classify_suspicious:
  "3 / 10 \<le> s \<Longrightarrow> s < 8 / 10 \<Longrightarrow> fst (classify s) = ''suspicious''"
  by (simp add: classify_def threshold_benign_def threshold_suspicious_def
        threshold_malicious_def)

lemma ml_score_bounds:
  assumes "analyze_file ev' fs' p' = Inr hr"
  shows "1 / 2 \<le> calculate_ml_score (extract_features ev fs p hr)
       \<and> calculate_ml_score (extract_features ev fs p hr) \<le> 1 / (1 + exp (- 1))"
  unfolding calculate_ml_score_def
  using features_unit [OF assms, of ev fs p]
  by (intro sigmoid_bounds) linarith+

text \<open>
  C3: for every result \<open>hr\<close> that the advanced heuristic engine returns and every file
  that exists, \<^verbatim>\<open>score_file\<close> returns a score in \<open>[1/2, 1/(1 + e\<^sup>-\<^sup>1)]\<close>, and the
  classification it returns is \<open>suspicious\<close> (hence neither \<open>benign\<close> nor \<open>malicious\<close>).
\<close>

theorem C3_ml_score_interval:
  assumes "analyze_file ev' fs' p' = Inr hr" and "lookup fs p \<noteq> None"
  shows "1 / 2 \<le> ml_score (score_file ev fs p hr)
       \<and> ml_score (score_file ev fs p hr) \<le> 1 / (1 + exp (- 1))
       \<and> classification (score_file ev fs p hr) = ''suspicious''"
proof -
  let ?s = "calculate_ml_score (extract_features ev fs p hr)"
  from ml_score_bounds [OF assms(1), of ev fs p]
  have b: "1 / 2 \<le> ?s" "?s \<le> 1 / (1 + exp (- 1))" by simp_all
  with sigmoid_one_below_malicious have "3 / 10 \<le> ?s" "?s < 8 / 10" by linarith+
  then have "fst (classify ?s) = ''suspicious''" by (rule classify_suspicious)
  with b assms(2) show ?thesis
    by (simp add: score_file_def Let_def case_prod_beta)
qed

text \<open>The analysis of the clean example file: no signal, risk score \<open>0\<close>.\<close>

lemma collect_hello: "collect_matches ''hello'' = []"
  by code_simp

lemma packer_hello: "detect_packer (bytes_of ''hello'') =
    \<lparr>signal_score = 0, signal_name = ''packer_detected'', signal_level = None\<rparr>"
  by (simp add: detect_packer_def packing_signatures_def bytes_of_def startswith_def
        analyze_entropy_def)

lemma mismatch_hello: "signal_score (check_extension_mismatch p (bytes_of ''hello'')) = 0"
  by (simp add: check_extension_mismatch_def file_signatures_def bytes_of_def startswith_def)

lemma analyze_clean:
  "analyze_file (ascii_env H) example_fs [''home'', ''scan'', ''clean.txt'']
     = Inr \<lparr>risk_score = 0, signals = []\<rparr>"
proof -
  have l: "lookup example_fs [''home'', ''scan'', ''clean.txt'']
             = Some (FileN \<lparr>content = bytes_of ''hello'', readable = True\<rparr>)"
    by (simp add: example_fs_def)
  have t: "take 1048576 (bytes_of ''hello'') = bytes_of ''hello''"
    by (simp add: bytes_of_def)
  have e: "analyze_entropy (bytes_of ''hello'')
             = \<lparr>signal_score = 0, signal_name = ''entropy'', signal_level = None\<rparr>"
    by (simp add: analyze_entropy_def bytes_of_def)
  show ?thesis
    by (simp add: analyze_file_def l t e detect_suspicious_strings_def decode_ascii
          collect_hello packer_hello mismatch_hello add_signal_def)
qed

theorem C3_ml_score_interval_witness:
  "analyze_file (ascii_env (\<lambda>a. None)) example_fs [''home'', ''scan'', ''clean.txt'']
     = Inr \<lparr>risk_score = 0, signals = []\<rparr>
   \<and> lookup example_fs [''home'', ''scan'', ''clean.txt''] \<noteq> None
   \<and> classification
       (score_file (ascii_env (\<lambda>a. None)) example_fs [''home'', ''scan'', ''clean.txt'']
          \<lparr>risk_score = 0, signals = []\<rparr>) = ''suspicious''"
proof -
  have l: "lookup example_fs [''home'', ''scan'', ''clean.txt''] \<noteq> None"
    by (simp add: example_fs_def)
  from C3_ml_score_interval [OF analyze_clean l] analyze_clean l show ?thesis by simp
qed

subsection \<open>The disabled cloud client\<close>

text \<open>
  C10: a client constructed with the default arguments is not enabled, and while a
  client is not enabled, \<^verbatim>\<open>query_hash\<close> returns the \<open>disabled\<close> result with its guidance
  message, leaves the client as it was and does nothing else: it reads no file,
  computes no hash, does not look into the cache and does not ask the cloud.
\<close>

theorem C10_disabled_query_hash:
  "is_enabled (CloudSyncClient_init False cache_file) = False
   \<and> (\<not> is_enabled c \<longrightarrow>
        query_hash ev fs c p
        = (QDisabled ''Cloud sync is disabled. Enable with: hex-avg cloud enable'', c, []))"
  by (simp add: is_enabled_def CloudSyncClient_init_def query_hash_def)

theorem C10_disabled_query_hash_witness:
  "\<not> is_enabled (CloudSyncClient_init False None)
   \<and> query_hash (ascii_env (\<lambda>a. None)) example_fs (CloudSyncClient_init False None)
       [''home'', ''scan'', ''clean.txt'']
     = (QDisabled ''Cloud sync is disabled. Enable with: hex-avg cloud enable'',
        CloudSyncClient_init False None, [])"
  using C10_disabled_query_hash [of None "CloudSyncClient_init False None"
      "ascii_env (\<lambda>a. None)" example_fs "[''home'', ''scan'', ''clean.txt'']"]
  by simp

subsection \<open>The threat flag of the consolidated scan command\<close>

text \<open>
  Without a cloud result the flag is the disjunction of the other three conditions.
\<close>

lemma combine_without_cloud:
  "combine_results threat_found hr ml_res None
   = Inr (threat_found \<or> risk_score hr \<ge> 50
          \<or> (case ml_res of None \<Rightarrow> False | Some r \<Rightarrow> ml_score r \<ge> 7 / 10))"
  by (simp add: combine_results_def)

text \<open>
  The process of the scan command builds its cloud client itself, so the client is
  not enabled and no cloud result is taken, with or without \<^verbatim>\<open>--cloud\<close>.  For a file
  whose analysis returns, the flag is then the disjunction of the signature match,
  a risk score of at least \<open>50\<close> and, with \<^verbatim>\<open>--ml\<close>, an ML score of at least \<open>0.7\<close>.
\<close>

lemma scan_step_fresh_client:
  "analyze_file ev fs p = Inr hr \<Longrightarrow>
   scan_step ev fs ml cloud (get_cloud_client None cache_file) threat_found p
   = Inr (threat_found \<or> risk_score hr \<ge> 50
          \<or> (ml \<and> ml_score (score_file ev fs p hr) \<ge> 7 / 10),
          get_cloud_client None cache_file)"
  by (simp add: scan_step_def get_cloud_client_def CloudSyncClient_init_def is_enabled_def
        combine_results_def)

text \<open>
  The key \<^verbatim>\<open>is_malicious\<close> that the flag reads in a cloud result is in none of the
  results of \<^verbatim>\<open>query_hash\<close>.  The slip shows only with a client that was enabled
  earlier in the same process, a state that the scan command does not reach by
  itself: there every file without signature match and with a risk score below \<open>50\<close>
  ends the command with \<^verbatim>\<open>KeyError\<close>.
\<close>

lemma combine_cloud_raises:
  "risk_score hr < 50 \<Longrightarrow>
   combine_results False hr None (Some r) = Inl (KeyError ''is_malicious'')"
  by (simp add: combine_results_def)

lemma scan_step_cloud_raises:
  "analyze_file ev fs p = Inr hr \<Longrightarrow> risk_score hr < 50 \<Longrightarrow> enabled client \<Longrightarrow>
   scan_step ev fs False True client False p = Inl (KeyError ''is_malicious'')"
  by (simp add: scan_step_def is_enabled_def combine_results_def split: prod.splits)

text \<open>
  An exception of the analysis ends the iteration before the flag is computed.
\<close>

lemma scan_step_analysis_raises:
  "analyze_file ev fs p = Inl e \<Longrightarrow> scan_step ev fs ml cloud client threat_found p = Inl e"
  by (simp add: scan_step_def)

text \<open>
  C2 fails on the code.  In the process of the scan command, with any choice of
  \<^verbatim>\<open>--ml\<close> and \<^verbatim>\<open>--cloud\<close>, let the signature database report a match for the readable
  file \<^verbatim>\<open>home/scan/note.txt\<close>, which holds \<^verbatim>\<open>key = a xor b\<close>.  The claim says that the file is
  flagged.  The command does not flag it: the advanced heuristic analysis of the
  file raises \<^verbatim>\<open>TypeError\<close> before the flag is computed, nothing in the loop catches the
  exception, and the command ends with it.
\<close>

theorem C2_signature_match_not_flagged:
  "scan_step (ascii_env H) example_fs ml cloud (get_cloud_client None cache_file) True
     [''home'', ''scan'', ''note.txt''] = Inl TypeError"
  by (rule scan_step_analysis_raises [OF analyze_note_raises])

subsection \<open>Export and import of signatures\<close>

text \<open>
  The export asks for the list of signatures with the limit \<^verbatim>\<open>None\<close>; the query fails,
  the failure is caught, and the document that is written has no signature.  An
  import of it adds nothing.
\<close>

lemma export_empty: "doc_signatures (snd (export_signatures sd)) = Some []"
  by (simp add: export_signatures_def list_signatures_def select_ordered_limit_def Let_def)

lemma import_export_count:
  "get_signature_count (fst (import_signatures fresh (snd (export_signatures sd))))
   = get_signature_count fresh"
  by (simp add: import_signatures_def export_signatures_def list_signatures_def
        select_ordered_limit_def Let_def)

text \<open>
  C9 fails on the code.  A store that was created empty and got one signature has a
  count of \<open>1\<close>; after exporting it and importing the document into a store that was
  created empty, that store has a count of \<open>0\<close>.
\<close>

theorem C9_export_import_loses_signatures:
  "get_signature_count
     (fst (add_signature (SignatureDetector_init [] 0 None) (Some ''Test.Sig'')
             (Some ''44d88612fea8a8f36de82e1278abb02f'') None None (Some ''test'')
             (Some ''low'') None)) = 1
   \<and> get_signature_count
       (fst (import_signatures (SignatureDetector_init [] 0 None)
          (snd (export_signatures
             (fst (add_signature (SignatureDetector_init [] 0 None) (Some ''Test.Sig'')
                     (Some ''44d88612fea8a8f36de82e1278abb02f'') None None (Some ''test'')
                     (Some ''low'') None)))))) = 0"
  by (simp add: import_export_count)
     (simp add: get_signature_count_def add_signature_def SignatureDetector_init_def
        load_eicar_signature_def)

end
